theory Spec2Isabelle
  imports Complex_Main "HOL-Library.Sublist"
begin

section \<open>JavaScript values and strings\<close>

text \<open>
  Values of type \<open>unknown\<close> (a condition's \<open>value\<close>, the entries of a verification
  context) are JSON values after parsing, or \<open>undefined\<close>. Numbers are IEEE doubles in
  the source and reals here. \<open>JObject\<close> stands for any non-array object or function;
  the code below only asks for its \<open>typeof\<close> and compares it by reference.
\<close>

datatype jsval =
    JUndefined
  | JNull
  | JBool bool
  | JNum real
  | JStr string
  | JArr "jsval list"
  | JObject

text \<open>
  \<open>a === b\<close>. Primitives compare by value; arrays and objects compare by reference, and
  the two operands below always come from two different parses (the stored capability
  and the request), so they are never the same reference.
\<close>

fun strict_eq :: "jsval \<Rightarrow> jsval \<Rightarrow> bool" where
  "strict_eq JUndefined JUndefined = True"
| "strict_eq JNull JNull = True"
| "strict_eq (JBool a) (JBool b) = (a = b)"
| "strict_eq (JNum a) (JNum b) = (a = b)"
| "strict_eq (JStr a) (JStr b) = (a = b)"
| "strict_eq _ _ = False"

text \<open>\<open>arr.includes(v)\<close> on an array: some element is the same value as \<open>v\<close>.\<close>

definition array_includes :: "jsval list \<Rightarrow> jsval \<Rightarrow> bool" where
  "array_includes arr v = list_ex (\<lambda>e. strict_eq e v) arr"

text \<open>\<open>s.startsWith(p)\<close> and \<open>s.includes(sub)\<close> on strings.\<close>

definition startsWith :: "string \<Rightarrow> string \<Rightarrow> bool" where
  "startsWith s p = prefix p s"

fun string_includes :: "string \<Rightarrow> string \<Rightarrow> bool" where
  "string_includes [] sub = (sub = [])"
| "string_includes (c # cs) sub = (prefix sub (c # cs) \<or> string_includes cs sub)"

text \<open>
  A \<open>Record<string, unknown>\<close> read with \<open>obj[key]\<close>: an own property if there is one,
  else what a plain object inherits from \<open>Object.prototype\<close> (a function or object), else
  \<open>undefined\<close>.
\<close>

definition object_prototype_keys :: "string list" where
  "object_prototype_keys =
     [''constructor'', ''__proto__'', ''hasOwnProperty'', ''isPrototypeOf'',
      ''propertyIsEnumerable'', ''toLocaleString'', ''toString'', ''valueOf'',
      ''__defineGetter__'', ''__defineSetter__'', ''__lookupGetter__'', ''__lookupSetter__'']"

definition property_get :: "(string \<rightharpoonup> jsval) \<Rightarrow> string \<Rightarrow> jsval" where
  "property_get obj key =
     (case obj key of
        Some v \<Rightarrow> v
      | None \<Rightarrow> if key \<in> set object_prototype_keys then JObject else JUndefined)"

section \<open>Capability model (models/capability.ts)\<close>

datatype ConditionType = TIME | RATE_LIMIT | RESOURCE_SCOPE | CONTEXT

datatype ConditionOperator =
  EQUALS | NOT_EQUALS | GREATER_THAN | LESS_THAN | CONTAINS | IN | BEFORE | AFTER

record CapabilityCondition =
  cond_type :: ConditionType
  parameter :: string
  operator :: ConditionOperator
  cond_value :: jsval

datatype CapabilityStatus = ACTIVE | EXPIRED | REVOKED | PENDING

record CapabilityProof =
  proof_type :: string
  proof_created :: string
  proofPurpose :: string
  verificationMethod :: string
  proofValue :: string

text \<open>Dates are milliseconds since the epoch (\<open>Date.getTime()\<close>).\<close>

record Capability =
  cap_id :: string
  cap_subject :: string
  cap_issuer :: string
  cap_actions :: "string list"
  cap_resources :: "string list"
  cap_conditions :: "CapabilityCondition list option"
  cap_notBefore :: "int option"
  cap_expiration :: "int option"
  cap_proof :: "CapabilityProof option"
  cap_issuedAt :: int
  cap_revokedAt :: "int option"
  cap_status :: CapabilityStatus

record CapabilityRequest =
  req_subject :: string
  req_actions :: "string list"
  req_resources :: "string list"
  req_conditions :: "CapabilityCondition list option"
  expiresInHours :: "int option"

section \<open>Bearer tokens (jsonwebtoken)\<close>

record jwt_capability =
  jc_actions :: "string list"
  jc_resources :: "string list"
  jc_conditions :: "CapabilityCondition list option"

record jwt_payload =
  jti :: string
  sub :: string
  iss :: string
  iat :: int
  exp :: int
  nbf :: int
  jwt_cap :: jwt_capability

text \<open>
  A token string, as far as \<open>jwt.verify\<close> reads it: either it is not a well-formed JWT, or
  it carries a payload and an HS256 signature made under some key.
\<close>

datatype token = Malformed | Signed jwt_payload string

definition jwt_sign :: "jwt_payload \<Rightarrow> string \<Rightarrow> token" where
  "jwt_sign payload secret = Signed payload secret"

datatype jwt_error = TokenExpiredError | JsonWebTokenError

text \<open>
  \<open>jwt.verify(token, secret)\<close> at clock time \<open>clock\<close> (seconds): the signature first,
  then \<open>nbf\<close> (a \<open>NotBeforeError\<close>, which is a \<open>JsonWebTokenError\<close>), then \<open>exp\<close>.
\<close>

definition jwt_verify :: "token \<Rightarrow> string \<Rightarrow> int \<Rightarrow> jwt_error + jwt_payload" where
  "jwt_verify tok secret clock =
     (case tok of
        Malformed \<Rightarrow> Inl JsonWebTokenError
      | Signed payload key \<Rightarrow>
          if key \<noteq> secret then Inl JsonWebTokenError
          else if nbf payload > clock then Inl JsonWebTokenError
          else if clock \<ge> exp payload then Inl TokenExpiredError
          else Inr payload)"

section \<open>Capability verification (services/capability-issuer.ts)\<close>

record CapabilityVerificationRequest =
  vr_token :: token
  vr_action :: string
  vr_resource :: string
  vr_context :: "(string \<rightharpoonup> jsval) option"

text \<open>
  The entries of \<open>errors\<close>. Each constructor is one message of the source:
  \<^item> \<open>TokenHasExpired\<close>: 'Token has expired'
  \<^item> \<open>InvalidToken\<close>: 'Invalid token'
  \<^item> \<open>CapabilityNotFound\<close>: 'Capability not found'
  \<^item> \<open>CapabilityRevoked\<close>: 'Capability has been revoked'
  \<^item> \<open>CapabilityExpired\<close>: 'Capability has expired'
  \<^item> \<open>SubjectMismatch\<close>: 'Subject mismatch'
  \<^item> \<open>ActionNotPermitted a\<close>: "Action 'a' not permitted"
  \<^item> \<open>ResourceNotAccessible r\<close>: "Resource 'r' not accessible"
  \<^item> \<open>ConditionFailed p op v\<close>: 'Condition failed: p must equal / be greater than /
    be less than / contain / be in v', by operator.
\<close>

datatype verification_error =
    TokenHasExpired
  | InvalidToken
  | CapabilityNotFound
  | CapabilityRevoked
  | CapabilityExpired
  | SubjectMismatch
  | ActionNotPermitted string
  | ResourceNotAccessible string
  | ConditionFailed string ConditionOperator jsval

record CapabilityVerificationResult =
  valid :: bool
  vres_capability :: "Capability option"
  vres_subject :: "string option"
  allowedActions :: "string list option"
  errors :: "verification_error list option"

definition invalid :: "verification_error list \<Rightarrow> CapabilityVerificationResult" where
  "invalid errs =
     \<lparr>valid = False, vres_capability = None, vres_subject = None,
      allowedActions = None, errors = Some errs\<rparr>"

text \<open>The body of the loop of \<open>evaluateConditions\<close>: the errors one condition pushes.\<close>

definition evaluateCondition ::
  "CapabilityCondition \<Rightarrow> (string \<rightharpoonup> jsval) \<Rightarrow> verification_error list" where
  "evaluateCondition condition context =
     (let contextValue = property_get context (parameter condition);
          failed = [ConditionFailed (parameter condition) (operator condition)
                      (cond_value condition)]
      in case operator condition of
           EQUALS \<Rightarrow>
             if \<not> strict_eq contextValue (cond_value condition) then failed else []
         | GREATER_THAN \<Rightarrow>
             (case (contextValue, cond_value condition) of
                (JNum c, JNum v) \<Rightarrow> if c \<le> v then failed else []
              | _ \<Rightarrow> [])
         | LESS_THAN \<Rightarrow>
             (case (contextValue, cond_value condition) of
                (JNum c, JNum v) \<Rightarrow> if c \<ge> v then failed else []
              | _ \<Rightarrow> [])
         | CONTAINS \<Rightarrow>
             (case (contextValue, cond_value condition) of
                (JStr c, JStr v) \<Rightarrow> if \<not> string_includes c v then failed else []
              | _ \<Rightarrow> [])
         | IN \<Rightarrow>
             (case cond_value condition of
                JArr vs \<Rightarrow> if \<not> array_includes vs contextValue then failed else []
              | _ \<Rightarrow> [])
         | _ \<Rightarrow> [])"

fun evaluateConditions ::
  "CapabilityCondition list \<Rightarrow> (string \<rightharpoonup> jsval) \<Rightarrow> verification_error list" where
  "evaluateConditions [] context = []"
| "evaluateConditions (condition # conditions) context =
     evaluateCondition condition context @ evaluateConditions conditions context"

text \<open>The resource check of \<open>verifyCapability\<close> (\<open>capability.resources.some(...)\<close>).\<close>

definition hasResourceAccess :: "string list \<Rightarrow> string \<Rightarrow> bool" where
  "hasResourceAccess resources requested =
     list_ex (\<lambda>resource.
        requested = resource \<or> startsWith requested resource \<or> resource = ''*'') resources"

text \<open>
  \<open>verifyCapability\<close>, given the signing secret, the rows of the \<open>capabilities\<close> table
  and the time of the call in milliseconds. The row with the token's \<open>jti\<close> is the first
  row with that id (\<open>result.rows[0]\<close>).
\<close>

definition verifyCapability ::
  "string \<Rightarrow> Capability list \<Rightarrow> int \<Rightarrow> CapabilityVerificationRequest
     \<Rightarrow> CapabilityVerificationResult" where
  "verifyCapability secret rows now request =
     (case jwt_verify (vr_token request) secret (now div 1000) of
        Inl TokenExpiredError \<Rightarrow> invalid [TokenHasExpired]
      | Inl JsonWebTokenError \<Rightarrow> invalid [InvalidToken]
      | Inr decoded \<Rightarrow>
          (case filter (\<lambda>row. cap_id row = jti decoded) rows of
             [] \<Rightarrow> invalid [CapabilityNotFound]
           | capability # _ \<Rightarrow>
               if cap_status capability = REVOKED then invalid [CapabilityRevoked]
               else if cap_status capability = EXPIRED then invalid [CapabilityExpired]
               else if sub decoded \<noteq> cap_subject capability then invalid [SubjectMismatch]
               else if vr_action request \<notin> set (cap_actions capability)
                 then invalid [ActionNotPermitted (vr_action request)]
               else if \<not> hasResourceAccess (cap_resources capability) (vr_resource request)
                 then invalid [ResourceNotAccessible (vr_resource request)]
               else
                 (let conditionErrors =
                        (case (cap_conditions capability, vr_context request) of
                           (Some conditions, Some context) \<Rightarrow>
                             evaluateConditions conditions context
                         | _ \<Rightarrow> [])
                  in if conditionErrors \<noteq> [] then invalid conditionErrors
                     else \<lparr>valid = True, vres_capability = Some capability,
                           vres_subject = Some (sub decoded),
                           allowedActions = Some (cap_actions capability),
                           errors = None\<rparr>)))"

section \<open>Agents and the activity log (models/agent.ts, services/identity-manager.ts)\<close>

datatype AgentType = ORCHESTRATOR | WORKER | VALIDATOR | GATEWAY | SPECIALIST | USER_PROXY

datatype AgentStatus =
  AGENT_ACTIVE | AGENT_INACTIVE | AGENT_SUSPENDED | AGENT_REVOKED | AGENT_PENDING

text \<open>
  An agent row. Its optional description, its list of capability names and its metadata
  are not read by the code modelled here and are left out.
\<close>

record Agent =
  agent_id :: string
  agent_did :: string
  agent_name :: string
  agent_type :: AgentType
  publicKey :: string
  trustScore :: real
  reputation :: int
  agent_status :: AgentStatus
  createdAt :: int
  updatedAt :: int
  lastActiveAt :: int

datatype ActivityType =
    IDENTITY_CREATED
  | IDENTITY_UPDATED
  | CAPABILITY_GRANTED
  | CAPABILITY_REVOKED
  | ATTESTATION_ISSUED
  | ATTESTATION_VERIFIED
  | INTERACTION
  | ANOMALY_DETECTED
  | TRUST_SCORE_UPDATED

text \<open>
  A row of \<open>agent_activities\<close>. \<open>metadata\<close> is the JSON text of the metadata object
  (what \<open>logActivityInternal\<close> passes to the insert, and what \<open>JSON.stringify\<close> gives
  back on a row read from the table, up to the order of the keys).
\<close>

record AgentActivity =
  activity_id :: string
  activity_agentId :: string
  activityType :: ActivityType
  description :: string
  timestamp :: int
  metadata :: string
  relatedAgentIds :: "string list option"

subsection \<open>JSON text of strings, string arrays and objects\<close>

definition hex_digit :: "nat \<Rightarrow> char" where
  "hex_digit n = ''0123456789abcdef'' ! (n mod 16)"

definition json_escape :: "char \<Rightarrow> string" where
  "json_escape c =
     (if c = CHR 0x22 then [CHR 0x5C, CHR 0x22]
      else if c = CHR 0x5C then [CHR 0x5C, CHR 0x5C]
      else if c = CHR 0x08 then [CHR 0x5C, CHR ''b'']
      else if c = CHR 0x0C then [CHR 0x5C, CHR ''f'']
      else if c = CHR 0x0A then [CHR 0x5C, CHR ''n'']
      else if c = CHR 0x0D then [CHR 0x5C, CHR ''r'']
      else if c = CHR 0x09 then [CHR 0x5C, CHR ''t'']
      else if (of_char c :: nat) < 32
        then [CHR 0x5C, CHR ''u'', CHR ''0'', CHR ''0'',
              hex_digit (of_char c div 16), hex_digit (of_char c)]
      else [c])"

definition json_string :: "string \<Rightarrow> string" where
  "json_string s = [CHR 0x22] @ concat (map json_escape s) @ [CHR 0x22]"

fun join :: "string \<Rightarrow> string list \<Rightarrow> string" where
  "join sep [] = []"
| "join sep [x] = x"
| "join sep (x # y # ys) = x @ sep @ join sep (y # ys)"

definition json_string_array :: "string list \<Rightarrow> string" where
  "json_string_array xs = ''['' @ join '','' (map json_string xs) @ '']''"

text \<open>An object from its keys and the JSON text of each value, in order.\<close>

definition json_object :: "(string \<times> string) list \<Rightarrow> string" where
  "json_object members =
     ''{'' @ join '','' (map (\<lambda>(k, v). json_string k @ '':'' @ v) members) @ ''}''"

section \<open>The store\<close>

text \<open>
  The tables the capability issuer reads and writes, each as the list of its rows, and
  the issuer's in-memory \<open>activeCapabilities\<close> map.
\<close>

record hub_state =
  capabilities :: "Capability list"
  activeCapabilities :: "string \<rightharpoonup> Capability"
  agents :: "Agent list"
  agent_activities :: "AgentActivity list"

text \<open>
  \<open>NotFoundError resource id\<close>, \<open>AuthorizationError message\<close>, and the error of the
  database driver when an insert repeats a primary key.
\<close>

datatype error =
    NotFoundError string string
  | AuthorizationError string
  | DatabaseError

text \<open>\<open>getAgent\<close> and \<open>getAgentByDID\<close>, over the rows of the \<open>agents\<close> table.\<close>

definition getAgent :: "Agent list \<Rightarrow> string \<Rightarrow> error + Agent" where
  "getAgent rows idOrDid =
     (let isDid = startsWith idOrDid ''did:'' in
      case filter (\<lambda>row. (if isDid then agent_did row else agent_id row) = idOrDid) rows of
        [] \<Rightarrow> Inl (NotFoundError ''Agent'' idOrDid)
      | row # _ \<Rightarrow> Inr row)"

definition getAgentByDID :: "Agent list \<Rightarrow> string \<Rightarrow> error + Agent" where
  "getAgentByDID rows did = getAgent rows did"

definition logActivity :: "AgentActivity \<Rightarrow> hub_state \<Rightarrow> (error + unit) \<times> hub_state" where
  "logActivity activity s =
     (if activity_id activity \<in> activity_id ` set (agent_activities s)
      then (Inl DatabaseError, s)
      else (Inr (), s\<lparr>agent_activities := agent_activities s @ [activity]\<rparr>))"

section \<open>Issuing, revoking and delegating (services/capability-issuer.ts)\<close>

record CapabilityToken =
  tok_token :: token
  tok_capability :: Capability
  expiresIn :: int

text \<open>
  \<open>issueCapability\<close>. \<open>secret\<close> is \<open>JWT_SECRET\<close>; \<open>uuid\<close> and \<open>activityId\<close> are the
  results of \<open>generateUUID()\<close> and \<open>generateId()\<close>; \<open>now\<close> is the time of the call.
  \<open>validateActionsAndResources\<close> only writes log lines. \<open>request.expiresInHours || 24\<close>
  takes 24 for a missing value and for 0. The stored row holds
  \<open>capability.conditions || []\<close>; the returned object and the in-memory map hold the
  request's own \<open>conditions\<close>.
\<close>

definition issueCapability ::
  "string \<Rightarrow> string \<Rightarrow> CapabilityRequest \<Rightarrow> string \<Rightarrow> string \<Rightarrow> int \<Rightarrow> hub_state
     \<Rightarrow> (error + CapabilityToken) \<times> hub_state" where
  "issueCapability secret issuerDid request uuid activityId now s =
     (case getAgentByDID (agents s) issuerDid of
        Inl e \<Rightarrow> (Inl e, s)
      | Inr issuer \<Rightarrow>
          if agent_status issuer \<noteq> AGENT_ACTIVE
          then (Inl (AuthorizationError ''Issuer is not active''), s)
          else
            (case getAgentByDID (agents s) (req_subject request) of
               Inl e \<Rightarrow> (Inl e, s)
             | Inr subject \<Rightarrow>
                 if agent_status subject \<noteq> AGENT_ACTIVE
                 then (Inl (AuthorizationError ''Subject is not active''), s)
                 else
                   (let capabilityId = ''urn:cap:'' @ uuid;
                        hours = (case expiresInHours request of
                                   None \<Rightarrow> 24
                                 | Some h \<Rightarrow> if h = 0 then 24 else h);
                        expiration = now + hours * 60 * 60 * 1000;
                        capability =
                          \<lparr>cap_id = capabilityId, cap_subject = req_subject request,
                           cap_issuer = issuerDid, cap_actions = req_actions request,
                           cap_resources = req_resources request,
                           cap_conditions = req_conditions request,
                           cap_notBefore = Some now, cap_expiration = Some expiration,
                           cap_proof = None, cap_issuedAt = now, cap_revokedAt = None,
                           cap_status = ACTIVE\<rparr>;
                        tok = jwt_sign
                          \<lparr>jti = capabilityId, sub = req_subject request, iss = issuerDid,
                           iat = now div 1000, exp = expiration div 1000, nbf = now div 1000,
                           jwt_cap = \<lparr>jc_actions = req_actions request,
                                      jc_resources = req_resources request,
                                      jc_conditions = req_conditions request\<rparr>\<rparr> secret;
                        row = capability\<lparr>cap_conditions :=
                                Some (case req_conditions request of
                                        None \<Rightarrow> [] | Some cs \<Rightarrow> cs)\<rparr>
                    in if capabilityId \<in> cap_id ` set (capabilities s)
                       then (Inl DatabaseError, s)
                       else
                         (let s1 = s\<lparr>capabilities := capabilities s @ [row]\<rparr>;
                              s2 = s1\<lparr>activeCapabilities :=
                                        (activeCapabilities s1)(capabilityId \<mapsto> capability)\<rparr>;
                              activity =
                                \<lparr>activity_id = activityId, activity_agentId = agent_id subject,
                                 activityType = CAPABILITY_GRANTED,
                                 description = ''Capability granted by '' @ agent_name issuer,
                                 timestamp = now,
                                 metadata = json_object
                                   [(''capabilityId'', json_string capabilityId),
                                    (''issuer'', json_string issuerDid),
                                    (''actions'', json_string_array (req_actions request)),
                                    (''resources'', json_string_array (req_resources request))],
                                 relatedAgentIds = None\<rparr>
                          in case logActivity activity s2 of
                               (Inl e, s3) \<Rightarrow> (Inl e, s3)
                             | (Inr _, s3) \<Rightarrow>
                                 (Inr \<lparr>tok_token = tok, tok_capability = capability,
                                       expiresIn = hours * 3600\<rparr>, s3)))))"

text \<open>
  \<open>checkAdminCapability\<close>: some row has this subject, \<open>admin\<close> among its actions, status
  active, and no expiration or one after the database's current time.
\<close>

definition checkAdminCapability :: "hub_state \<Rightarrow> int \<Rightarrow> string \<Rightarrow> bool" where
  "checkAdminCapability s now did =
     (filter (\<lambda>row. cap_subject row = did \<and> ''admin'' \<in> set (cap_actions row)
                \<and> cap_status row = ACTIVE
                \<and> (case cap_expiration row of None \<Rightarrow> True | Some e \<Rightarrow> e > now))
        (capabilities s) \<noteq> [])"

text \<open>
  The activity \<open>revokeCapability\<close> logs. \<open>reason || 'No reason provided'\<close> takes the
  default for a missing and for an empty reason; a missing reason leaves no key in the
  metadata.
\<close>

definition revocationActivity ::
  "string \<Rightarrow> string \<Rightarrow> string option \<Rightarrow> string \<Rightarrow> int \<Rightarrow> Agent \<Rightarrow> AgentActivity" where
  "revocationActivity capabilityId revokedBy reason activityId now subject =
     \<lparr>activity_id = activityId, activity_agentId = agent_id subject,
      activityType = CAPABILITY_REVOKED,
      description = ''Capability revoked: '' @
        (case reason of
           None \<Rightarrow> ''No reason provided''
         | Some r \<Rightarrow> if r = [] then ''No reason provided'' else r),
      timestamp = now,
      metadata = json_object
        ([(''capabilityId'', json_string capabilityId),
          (''revokedBy'', json_string revokedBy)] @
         (case reason of
            None \<Rightarrow> []
          | Some r \<Rightarrow> [(''reason'', json_string r)])),
      relatedAgentIds = None\<rparr>"

text \<open>
  The update statement of \<open>revokeCapability\<close>: status and \<open>revoked_at\<close> of the rows
  with this id.
\<close>

definition markRevoked :: "string \<Rightarrow> int \<Rightarrow> Capability list \<Rightarrow> Capability list" where
  "markRevoked capabilityId now rows =
     map (\<lambda>row. if cap_id row = capabilityId
                 then row\<lparr>cap_status := REVOKED, cap_revokedAt := Some now\<rparr>
                 else row) rows"

text \<open>
  \<open>revokeCapability\<close>. The update is made before the subject is looked up, so an error
  after it leaves the update in place.
\<close>

definition revokeCapability ::
  "string \<Rightarrow> string \<Rightarrow> string option \<Rightarrow> string \<Rightarrow> int \<Rightarrow> hub_state
     \<Rightarrow> (error + unit) \<times> hub_state" where
  "revokeCapability capabilityId revokedBy reason activityId now s =
     (case filter (\<lambda>row. cap_id row = capabilityId) (capabilities s) of
        [] \<Rightarrow> (Inl (NotFoundError ''Capability'' capabilityId), s)
      | capability # _ \<Rightarrow>
          if revokedBy \<noteq> cap_issuer capability \<and> \<not> checkAdminCapability s now revokedBy
          then (Inl (AuthorizationError ''Not authorized to revoke this capability''), s)
          else
            (let s1 = s\<lparr>capabilities := markRevoked capabilityId now (capabilities s)\<rparr>;
                 s2 = s1\<lparr>activeCapabilities := (activeCapabilities s1)(capabilityId := None)\<rparr>
             in case getAgentByDID (agents s2) (cap_subject capability) of
                  Inl e \<Rightarrow> (Inl e, s2)
                | Inr subject \<Rightarrow>
                    logActivity
                      (revocationActivity capabilityId revokedBy reason activityId now subject)
                      s2))"

record DelegationRestrictions =
  restrict_actions :: "string list option"
  restrict_resources :: "string list option"

record CapabilityDelegation =
  delegation_id :: string
  delegation_capabilityId :: string
  delegator :: string
  delegatee :: string
  restrictions :: DelegationRestrictions
  delegatedAt :: int
  expiresAt :: "int option"

text \<open>
  \<open>delegateCapability\<close>; \<open>newId\<close> is the result of \<open>generateId()\<close>. An array, even an
  empty one, is truthy, so \<open>restrictions?.actions || ...\<close> falls back only when there is
  no array; \<open>expiresInHours ? ... : ...\<close> falls back for a missing value and for 0.
\<close>

definition delegateCapability ::
  "string \<Rightarrow> string \<Rightarrow> string \<Rightarrow> DelegationRestrictions option \<Rightarrow> int option
     \<Rightarrow> string \<Rightarrow> int \<Rightarrow> hub_state \<Rightarrow> error + CapabilityDelegation" where
  "delegateCapability capabilityId delegator_did delegatee_did restr hours newId now s =
     (case filter (\<lambda>row. cap_id row = capabilityId) (capabilities s) of
        [] \<Rightarrow> Inl (NotFoundError ''Capability'' capabilityId)
      | originalCapability # _ \<Rightarrow>
          if cap_subject originalCapability \<noteq> delegator_did
          then Inl (AuthorizationError ''Only the capability subject can delegate'')
          else if ''delegate'' \<notin> set (cap_actions originalCapability)
          then Inl (AuthorizationError ''Capability does not allow delegation'')
          else Inr
            \<lparr>delegation_id = newId,
             delegation_capabilityId = capabilityId,
             delegator = delegator_did,
             delegatee = delegatee_did,
             restrictions =
               \<lparr>restrict_actions = Some
                  (case Option.bind restr restrict_actions of
                     Some as \<Rightarrow> as | None \<Rightarrow> cap_actions originalCapability),
                restrict_resources = Some
                  (case Option.bind restr restrict_resources of
                     Some rs \<Rightarrow> rs | None \<Rightarrow> cap_resources originalCapability)\<rparr>,
             delegatedAt = now,
             expiresAt =
               (case hours of
                  None \<Rightarrow> cap_expiration originalCapability
                | Some h \<Rightarrow> if h = 0 then cap_expiration originalCapability
                            else Some (now + h * 60 * 60 * 1000))\<rparr>)"

text \<open>
  The condition step of \<open>verifyCapability\<close> on its own: the errors of the stored
  conditions against the request's context, and none when either is missing.
\<close>

definition conditionErrors ::
  "Capability \<Rightarrow> CapabilityVerificationRequest \<Rightarrow> verification_error list" where
  "conditionErrors capability request =
     (case (cap_conditions capability, vr_context request) of
        (Some conditions, Some context) \<Rightarrow> evaluateConditions conditions context
      | _ \<Rightarrow> [])"

text \<open>The store after a successful revocation that logged \<open>act\<close>.\<close>

definition revoked_state :: "string \<Rightarrow> int \<Rightarrow> AgentActivity \<Rightarrow> hub_state \<Rightarrow> hub_state" where
  "revoked_state capabilityId now act s =
     s\<lparr>capabilities := markRevoked capabilityId now (capabilities s),
       activeCapabilities := (activeCapabilities s)(capabilityId := None),
       agent_activities := agent_activities s @ [act]\<rparr>"

section \<open>DID documents (services/did-service.ts)\<close>


record ServiceEndpoint =
  service_id :: string
  service_type :: string
  serviceEndpoint :: string




section \<open>Attestations (models/attestation.ts, services/attestation-service.ts)\<close>

datatype AttestationType =
    IDENTITY_VERIFICATION
  | CAPABILITY_AUTHORIZATION
  | BEHAVIOR_ASSERTION
  | TRUST_ASSERTION
  | COMPLETION_CERTIFICATE
  | MEMBERSHIP
  | CUSTOM

record AttestationClaim =
  claim_type :: string
  claim_value :: jsval
  claim_issuer :: "string option"

record RevocationInfo =
  rev_revokedAt :: int
  rev_reason :: "string option"
  rev_revokedBy :: string

record AttestationProof =
  ap_type :: string
  ap_created :: string
  ap_proofPurpose :: string
  ap_verificationMethod :: string
  ap_proofValue :: string

text \<open>
  A row of \<open>attestations\<close>, as \<open>mapAttestationFromDb\<close> returns it; its free-form
  metadata, and the optional challenge and domain of a proof, are left out.
\<close>

record Attestation =
  att_id :: string
  att_type :: AttestationType
  att_issuer :: string
  att_subject :: string
  claims :: "AttestationClaim list"
  att_issuedAt :: int
  att_expiresAt :: "int option"
  revocation :: "RevocationInfo option"
  att_proof :: "AttestationProof option"

record AttestationFilter =
  filter_issuer :: "string option"
  filter_subject :: "string option"
  filter_type :: "AttestationType option"
  validOnly :: "bool option"
  issuedAfter :: "int option"
  issuedBefore :: "int option"

text \<open>
  The \<open>WHERE\<close> clause \<open>listAttestations\<close> builds. A filter entry is applied when it is
  truthy: an empty string and \<open>false\<close> are not. \<open>dbNow\<close> is \<open>CURRENT_TIMESTAMP\<close>.
\<close>

definition matchesFilter :: "AttestationFilter \<Rightarrow> int \<Rightarrow> Attestation \<Rightarrow> bool" where
  "matchesFilter f dbNow row \<longleftrightarrow>
     (case filter_issuer f of
        None \<Rightarrow> True | Some i \<Rightarrow> i = [] \<or> att_issuer row = i)
     \<and> (case filter_subject f of
        None \<Rightarrow> True | Some sb \<Rightarrow> sb = [] \<or> att_subject row = sb)
     \<and> (case filter_type f of None \<Rightarrow> True | Some t \<Rightarrow> att_type row = t)
     \<and> (case validOnly f of
        Some True \<Rightarrow>
          (case att_expiresAt row of None \<Rightarrow> True | Some e \<Rightarrow> e > dbNow)
          \<and> revocation row = None
      | _ \<Rightarrow> True)
     \<and> (case issuedAfter f of None \<Rightarrow> True | Some t \<Rightarrow> att_issuedAt row \<ge> t)
     \<and> (case issuedBefore f of None \<Rightarrow> True | Some t \<Rightarrow> att_issuedAt row \<le> t)"

text \<open>
  \<open>listAttestations\<close>: the matching rows, newest first (rows issued at the same time in
  table order), one page of them, and the count of all matching rows.
\<close>

definition listAttestations ::
  "Attestation list \<Rightarrow> AttestationFilter \<Rightarrow> nat \<Rightarrow> nat \<Rightarrow> int \<Rightarrow> Attestation list \<times> nat" where
  "listAttestations rows f page limit dbNow =
     (let offset = (page - 1) * limit;
          matching = filter (matchesFilter f dbNow) rows;
          ordered = sort_key (\<lambda>row. - att_issuedAt row) matching
      in (take limit (drop offset ordered), length matching))"

text \<open>The filter \<open>{ subject, validOnly: true }\<close>.\<close>

definition validFor :: "string \<Rightarrow> AttestationFilter" where
  "validFor subject =
     \<lparr>filter_issuer = None, filter_subject = Some subject, filter_type = None,
      validOnly = Some True, issuedAfter = None, issuedBefore = None\<rparr>"

record AttestationChain =
  chain_attestations :: "Attestation list"
  rootIssuer :: string
  chain_subject :: string
  chainValid :: bool
  chain_trustScore :: real

text \<open>The loop of \<open>calculateChainTrustScore\<close>, from index \<open>i\<close> on.\<close>

fun chainScoreLoop :: "Attestation list \<Rightarrow> nat \<Rightarrow> real \<times> real \<Rightarrow> real \<times> real" where
  "chainScoreLoop [] i (totalScore, weight) = (totalScore, weight)"
| "chainScoreLoop (attestation # rest) i (totalScore, weight) =
     (let attWeight = 1 / (real i + 1);
          attScore =
            (if att_type attestation = TRUST_ASSERTION then 0.8
             else if att_type attestation = IDENTITY_VERIFICATION then 0.7
             else 0.5)
            + min (real (length (claims attestation)) * 0.05) 0.2
      in chainScoreLoop rest (i + 1) (totalScore + attScore * attWeight, weight + attWeight))"

definition calculateChainTrustScore :: "Attestation list \<Rightarrow> real" where
  "calculateChainTrustScore chain =
     (if chain = [] then 0.5
      else case chainScoreLoop chain 0 (0, 0) of
             (totalScore, weight) \<Rightarrow> min (totalScore / weight) 1)"

text \<open>The inner loop of \<open>buildAttestationChain\<close>: the issuer's attestations not yet visited.\<close>

fun addUnvisited ::
  "Attestation list \<Rightarrow> Attestation list \<times> string set \<Rightarrow> Attestation list \<times> string set" where
  "addUnvisited [] (chain, visited) = (chain, visited)"
| "addUnvisited (issuerAtt # rest) (chain, visited) =
     (if att_id issuerAtt \<notin> visited
      then addUnvisited rest (chain @ [issuerAtt], insert (att_id issuerAtt) visited)
      else addUnvisited rest (chain, visited))"

text \<open>The outer loop, over the subject's attestations.\<close>

fun followIssuers ::
  "Attestation list \<Rightarrow> int \<Rightarrow> Attestation list \<Rightarrow> Attestation list \<times> string set
     \<Rightarrow> Attestation list \<times> string set" where
  "followIssuers rows dbNow [] (chain, visited) = (chain, visited)"
| "followIssuers rows dbNow (attestation # rest) (chain, visited) =
     (if att_id attestation \<notin> visited
      then
        (let chain1 = chain @ [attestation];
             visited1 = insert (att_id attestation) visited
         in if att_type attestation = TRUST_ASSERTION
            then followIssuers rows dbNow rest
                   (addUnvisited
                      (fst (listAttestations rows
                              \<lparr>filter_issuer = Some (att_issuer attestation),
                               filter_subject = None, filter_type = None,
                               validOnly = Some True, issuedAfter = None,
                               issuedBefore = None\<rparr> 1 10 dbNow))
                      (chain1, visited1))
            else followIssuers rows dbNow rest (chain1, visited1))
      else followIssuers rows dbNow rest (chain, visited))"

text \<open>
  \<open>buildAttestationChain\<close>. \<open>dbNow\<close> is the database's time when the rows are listed, \<open>now\<close>
  the time of the validity check at the end.
\<close>

definition buildAttestationChain ::
  "Attestation list \<Rightarrow> string \<Rightarrow> AttestationType option \<Rightarrow> int \<Rightarrow> int \<Rightarrow> AttestationChain" where
  "buildAttestationChain rows subject attestationType dbNow now =
     (let f = (validFor subject)\<lparr>filter_type := attestationType\<rparr>;
          attestations = fst (listAttestations rows f 1 100 dbNow);
          chain = fst (followIssuers rows dbNow attestations ([], {}));
          trustScore = calculateChainTrustScore chain;
          isValid = list_all (\<lambda>att. revocation att = None
                        \<and> (case att_expiresAt att of None \<Rightarrow> True | Some e \<Rightarrow> e > now)) chain
      in \<lparr>chain_attestations = chain,
          rootIssuer = (case chain of
                          [] \<Rightarrow> subject
                        | first # _ \<Rightarrow> if att_issuer first = [] then subject
                                       else att_issuer first),
          chain_subject = subject,
          chainValid = isValid,
          chain_trustScore = trustScore\<rparr>)"


section \<open>Trust engine (services/trust-engine.ts)\<close>

datatype RelationshipType =
  DELEGATES_TO | VERIFIES | COMMUNICATES_WITH | SUPERVISES | DEPENDS_ON | REPLACES

record AgentRelationship =
  rel_id :: string
  sourceAgentId :: string
  targetAgentId :: string
  relationshipType :: RelationshipType
  trustLevel :: real
  permissions :: "string list"
  establishedAt :: int
  lastInteractionAt :: int
  interactionCount :: int

datatype AnomalyType =
    UNUSUAL_ACCESS_PATTERN
  | TRUST_MANIPULATION
  | CAPABILITY_ESCALATION
  | IDENTITY_SPOOFING
  | BEHAVIOR_DEVIATION
  | COLLUSION_PATTERN

datatype AnomalySeverity = LOW | MEDIUM | HIGH | CRITICAL

text \<open>An indicator; its \<open>description\<close>, the value rendered in a sentence, is left out.\<close>

record AnomalyIndicator =
  indicator_type :: string
  indicator_value :: real
  threshold :: real

record AnomalyDetectionResult =
  anomaly_agentId :: string
  anomalyType :: AnomalyType
  severity :: AnomalySeverity
  confidence :: real
  indicators :: "AnomalyIndicator list"
  detectedAt :: int
  recommendedAction :: "string option"

text \<open>A row of \<open>anomalies\<close>: the anomaly and when, if ever, it was resolved.\<close>

record AnomalyRecord =
  anomaly :: AnomalyDetectionResult
  resolved_at :: "int option"

record TrustScoreCalculation =
  calc_agentId :: string
  baseScore :: real
  calc_attestations :: nat
  positiveInteractions :: nat
  negativeInteractions :: nat
  recencyWeight :: real
  anomalyPenalty :: real
  finalScore :: real

text \<open>The engine's settings, read from the environment (defaults 0.05, 0.1 and 0.7).\<close>

record TrustEngine =
  decayRate :: real
  boostRate :: real
  anomalyThreshold :: real

text \<open>
  A row of \<open>trust_scores\<close>. Its \<open>reason\<close>, the base score and the recency weight
  rendered in a sentence, is left out.
\<close>

record TrustScoreRow =
  ts_id :: string
  ts_agent_id :: string
  ts_score :: real
  ts_calculated_at :: int

text \<open>The tables the engine reads and writes.\<close>

record engine_store =
  es_agents :: "Agent list"
  es_attestations :: "Attestation list"
  es_activities :: "AgentActivity list"
  es_relationships :: "AgentRelationship list"
  es_anomalies :: "AnomalyRecord list"
  es_trust_scores :: "TrustScoreRow list"

definition getAgentActivity :: "AgentActivity list \<Rightarrow> string \<Rightarrow> nat \<Rightarrow> AgentActivity list" where
  "getAgentActivity rows agentId limit =
     take limit (sort_key (\<lambda>row. - timestamp row)
                   (filter (\<lambda>row. activity_agentId row = agentId) rows))"

text \<open>\<open>getRelationships\<close>: the incoming and the outgoing edges.\<close>

definition getRelationships ::
  "AgentRelationship list \<Rightarrow> string \<Rightarrow> AgentRelationship list \<times> AgentRelationship list" where
  "getRelationships rows agentId =
     (filter (\<lambda>row. targetAgentId row = agentId) rows,
      filter (\<lambda>row. sourceAgentId row = agentId) rows)"

definition getAnomalyHistory ::
  "AnomalyRecord list \<Rightarrow> string \<Rightarrow> bool option \<Rightarrow> AnomalyDetectionResult list" where
  "getAnomalyHistory rows agentId resolved =
     map anomaly
       (sort_key (\<lambda>row. - detectedAt (anomaly row))
          (filter (\<lambda>row. anomaly_agentId (anomaly row) = agentId
                     \<and> (case resolved of
                          None \<Rightarrow> True
                        | Some True \<Rightarrow> resolved_at row \<noteq> None
                        | Some False \<Rightarrow> resolved_at row = None)) rows))"

definition calculateAttestationScore :: "Attestation list \<Rightarrow> real" where
  "calculateAttestationScore attestations =
     (if attestations = [] then 0.5
      else
        (let trustAttestations = filter (\<lambda>a. att_type a = TRUST_ASSERTION) attestations;
             identityAttestations =
               filter (\<lambda>a. att_type a = IDENTITY_VERIFICATION) attestations;
             score = 0.5 + min (real (length trustAttestations) * 0.1) 0.3
                         + min (real (length identityAttestations) * 0.05) 0.2
         in min score 1))"

definition calculateActivityScore :: "AgentActivity list \<Rightarrow> int \<Rightarrow> real" where
  "calculateActivityScore activities now =
     (if activities = [] then 0.5
      else
        (let recentActivities =
               filter (\<lambda>a. now - timestamp a < 7 * 24 * 60 * 60 * 1000) activities
         in if recentActivities = [] then 0.3
            else
              (let positiveCount = length (filter (\<lambda>a.
                       activityType a = CAPABILITY_GRANTED
                       \<or> activityType a = ATTESTATION_ISSUED) recentActivities);
                   negativeCount = length (filter (\<lambda>a.
                       activityType a = ANOMALY_DETECTED
                       \<or> activityType a = CAPABILITY_REVOKED) recentActivities);
                   ratio = real positiveCount /
                     real (if positiveCount + negativeCount = 0 then 1
                           else positiveCount + negativeCount)
               in 0.5 + ratio * 0.5)))"

definition calculateRelationshipScore ::
  "AgentRelationship list \<times> AgentRelationship list \<Rightarrow> real" where
  "calculateRelationshipScore relationships =
     (let allRelationships = fst relationships @ snd relationships
      in if allRelationships = [] then 0.5
         else foldl (\<lambda>sum r. sum + trustLevel r) 0 allRelationships /
                real (length allRelationships))"

definition calculateAgeScore :: "int \<Rightarrow> int \<Rightarrow> real" where
  "calculateAgeScore created_at now =
     (let ageMs = real_of_int (now - created_at);
          ageDays = ageMs / (1000 * 60 * 60 * 24)
      in min (ageDays / 90) 1)"

definition calculateReputationScore :: "int \<Rightarrow> real" where
  "calculateReputationScore rep = (real_of_int rep + 1000) / 2000"

definition calculateRecencyWeight :: "AgentActivity list \<Rightarrow> int \<Rightarrow> real" where
  "calculateRecencyWeight activities now =
     (case activities of
        [] \<Rightarrow> 0
      | lastActivity # _ \<Rightarrow>
          (let hoursSinceLastActivity =
                 real_of_int (now - timestamp lastActivity) / (1000 * 60 * 60)
           in max 0 (1 - hoursSinceLastActivity / 168)))"

definition calculateAnomalyPenalty :: "AnomalyRecord list \<Rightarrow> string \<Rightarrow> real" where
  "calculateAnomalyPenalty rows agentId =
     (let unresolvedAnomalies = getAnomalyHistory rows agentId (Some False)
      in if unresolvedAnomalies = [] then 0
         else min (foldl (\<lambda>penalty a.
                      penalty +
                        (if severity a = CRITICAL then 0.3
                         else if severity a = HIGH then 0.2
                         else if severity a = MEDIUM then 0.1
                         else 0.05) * confidence a) 0 unresolvedAnomalies) 0.5)"

definition clamp :: "real \<Rightarrow> real \<Rightarrow> real \<Rightarrow> real" where
  "clamp v lo hi = min (max v lo) hi"

text \<open>
  A value stored in a \<open>DECIMAL(3,2)\<close> column: rounded to two decimals, halves away from
  zero. The scores stored here lie in \<open>[0, 1]\<close>, inside the column's range.
\<close>

definition toDecimal2 :: "real \<Rightarrow> real" where
  "toDecimal2 x = sgn x * real_of_int \<lfloor>\<bar>x\<bar> * 100 + 1 / 2\<rfloor> / 100"

text \<open>
  \<open>storeTrustScore\<close>: the insert into \<open>trust_scores\<close>, with \<open>scoreId\<close> the result of
  \<open>generateId()\<close>. The database refuses a repeated primary key, and an \<open>agent_id\<close> that
  is not the \<open>id\<close> of a row of \<open>agents\<close> (the column's foreign key).
\<close>

definition storeTrustScore ::
  "TrustScoreCalculation \<Rightarrow> string \<Rightarrow> int \<Rightarrow> engine_store \<Rightarrow> (error + unit) \<times> engine_store" where
  "storeTrustScore calculation scoreId now store =
     (if scoreId \<in> ts_id ` set (es_trust_scores store) then (Inl DatabaseError, store)
      else if calc_agentId calculation \<notin> agent_id ` set (es_agents store)
      then (Inl DatabaseError, store)
      else (Inr (),
            store\<lparr>es_trust_scores := es_trust_scores store @
                    [\<lparr>ts_id = scoreId, ts_agent_id = calc_agentId calculation,
                      ts_score = toDecimal2 (finalScore calculation),
                      ts_calculated_at = now\<rparr>]\<rparr>))"

text \<open>The update of \<open>agents.trust_score\<close> that ends \<open>calculateTrustScore\<close>.\<close>

definition updateTrustScore :: "string \<Rightarrow> real \<Rightarrow> Agent list \<Rightarrow> Agent list" where
  "updateTrustScore agentId score rows =
     map (\<lambda>row. if agent_id row = agentId then row\<lparr>trustScore := toDecimal2 score\<rparr>
                 else row) rows"

text \<open>
  \<open>calculateTrustScore\<close>. \<open>agentId\<close> is the argument as passed, an id or a DID: the
  agent is looked up by either, and the activity, relationship and anomaly queries, the
  stored row and the final update all use the argument itself. After the calculation the
  row is stored, then \<open>trust_score\<close> of the agent with this id is overwritten.
\<close>

definition calculateTrustScore ::
  "TrustEngine \<Rightarrow> engine_store \<Rightarrow> string \<Rightarrow> string \<Rightarrow> int
     \<Rightarrow> (error + TrustScoreCalculation) \<times> engine_store" where
  "calculateTrustScore engine store agentId scoreId now =
     (case getAgent (es_agents store) agentId of
        Inl e \<Rightarrow> (Inl e, store)
      | Inr agent \<Rightarrow>
          (let attestations =
                 fst (listAttestations (es_attestations store)
                        (validFor (agent_did agent)) 1 100 now);
               activities = getAgentActivity (es_activities store) agentId 100;
               relationships = getRelationships (es_relationships store) agentId;
               base = 0.5
                 + calculateAttestationScore attestations * 0.3
                 + calculateActivityScore activities now * 0.2
                 + calculateRelationshipScore relationships * 0.2
                 + calculateAgeScore (createdAt agent) now * 0.1
                 + calculateReputationScore (reputation agent) * 0.2;
               recency = calculateRecencyWeight activities now;
               penalty = calculateAnomalyPenalty (es_anomalies store) agentId;
               adjusted =
                 (if recency > 0.5 then base + boostRate engine * recency
                  else base - decayRate engine * (0.5 - recency));
               calculation =
                 \<lparr>calc_agentId = agentId,
                  baseScore = base,
                  calc_attestations = length attestations,
                  positiveInteractions = length (filter (\<lambda>a.
                      activityType a = CAPABILITY_GRANTED
                      \<or> activityType a = ATTESTATION_VERIFIED) activities),
                  negativeInteractions = length (filter (\<lambda>a.
                      activityType a = ANOMALY_DETECTED
                      \<or> activityType a = CAPABILITY_REVOKED) activities),
                  recencyWeight = recency,
                  anomalyPenalty = penalty,
                  finalScore = clamp (adjusted - penalty) 0 1\<rparr>
           in case storeTrustScore calculation scoreId now store of
                (Inl e, store1) \<Rightarrow> (Inl e, store1)
              | (Inr _, store1) \<Rightarrow>
                  (Inr calculation,
                   store1\<lparr>es_agents :=
                     updateTrustScore agentId (finalScore calculation) (es_agents store1)\<rparr>)))"

subsection \<open>Anomaly detectors\<close>

definition detectAccessPatternAnomalies ::
  "Agent \<Rightarrow> AgentActivity list \<Rightarrow> int \<Rightarrow> AnomalyDetectionResult option" where
  "detectAccessPatternAnomalies agent activities now =
     (let oneHourAgo = now - 60 * 60 * 1000;
          recentActivities = filter (\<lambda>a. timestamp a > oneHourAgo) activities
      in if length recentActivities < 5 then None
         else if length recentActivities > 50
         then Some \<lparr>anomaly_agentId = agent_id agent,
                    anomalyType = UNUSUAL_ACCESS_PATTERN,
                    severity = HIGH,
                    confidence = min (real (length recentActivities) / 100) 1,
                    indicators = [\<lparr>indicator_type = ''activity_burst'',
                                   indicator_value = real (length recentActivities),
                                   threshold = 50\<rparr>],
                    detectedAt = now,
                    recommendedAction = Some
                      ''Review recent activities and consider temporary suspension''\<rparr>
         else None)"

definition detectTrustManipulation ::
  "Agent \<Rightarrow> AgentActivity list \<Rightarrow> int \<Rightarrow> AnomalyDetectionResult option" where
  "detectTrustManipulation agent activities now =
     (let trustActivities = filter (\<lambda>a. activityType a = TRUST_SCORE_UPDATED) activities
      in if length trustActivities < 3 then None
         else
           (let recentChanges = take 5 trustActivities
            in if length recentChanges \<ge> 3
               then Some \<lparr>anomaly_agentId = agent_id agent,
                          anomalyType = TRUST_MANIPULATION,
                          severity = MEDIUM,
                          confidence = 0.7,
                          indicators = [\<lparr>indicator_type = ''rapid_trust_changes'',
                                         indicator_value = real (length recentChanges),
                                         threshold = 3\<rparr>],
                          detectedAt = now,
                          recommendedAction = Some
                            ''Investigate trust score manipulation attempts''\<rparr>
               else None))"

definition detectCapabilityEscalation ::
  "Agent \<Rightarrow> AgentActivity list \<Rightarrow> int \<Rightarrow> AnomalyDetectionResult option" where
  "detectCapabilityEscalation agent activities now =
     (let capabilityGrants = filter (\<lambda>a. activityType a = CAPABILITY_GRANTED) activities
      in if length capabilityGrants < 2 then None
         else
           (let adminGrants =
                  filter (\<lambda>a. string_includes (metadata a) ''admin'') capabilityGrants
            in if length adminGrants > 0
               then Some \<lparr>anomaly_agentId = agent_id agent,
                          anomalyType = CAPABILITY_ESCALATION,
                          severity = HIGH,
                          confidence = 0.8,
                          indicators = [\<lparr>indicator_type = ''admin_capability_grants'',
                                         indicator_value = real (length adminGrants),
                                         threshold = 0\<rparr>],
                          detectedAt = now,
                          recommendedAction = Some
                            ''Review admin capability grants immediately''\<rparr>
               else None))"

definition detectCollusionPatterns ::
  "Agent \<Rightarrow> AgentRelationship list \<times> AgentRelationship list \<Rightarrow> int
     \<Rightarrow> AnomalyDetectionResult option" where
  "detectCollusionPatterns agent relationships now =
     (let allRelatedIds = map sourceAgentId (fst relationships)
                          @ map targetAgentId (snd relationships);
          uniqueCount = length (remdups allRelatedIds)
      in if uniqueCount > 20
         then Some \<lparr>anomaly_agentId = agent_id agent,
                    anomalyType = COLLUSION_PATTERN,
                    severity = MEDIUM,
                    confidence = min (real uniqueCount / 50) 1,
                    indicators = [\<lparr>indicator_type = ''high_connectivity'',
                                   indicator_value = real uniqueCount,
                                   threshold = 20\<rparr>],
                    detectedAt = now,
                    recommendedAction = Some
                      ''Review agent relationships for potential collusion''\<rparr>
         else None)"

definition calculateStandardDeviation :: "real list \<Rightarrow> real" where
  "calculateStandardDeviation numbers =
     (if numbers = [] then 0
      else
        (let mean = foldl (\<lambda>a b. a + b) 0 numbers / real (length numbers);
             variance = foldl (\<lambda>sum num. sum + (num - mean) ^ 2) 0 numbers /
                          real (length numbers)
         in sqrt variance))"

text \<open>
  \<open>typeCounts[type] = (typeCounts[type] || 0) + 1\<close> on an object whose keys keep their
  insertion order.
\<close>

fun countType :: "ActivityType \<Rightarrow> (ActivityType \<times> nat) list \<Rightarrow> (ActivityType \<times> nat) list" where
  "countType t [] = [(t, 1)]"
| "countType t ((k, n) # rest) =
     (if k = t then (k, n + 1) # rest else (k, n) # countType t rest)"

definition detectBehaviorDeviation ::
  "Agent \<Rightarrow> AgentActivity list \<Rightarrow> int \<Rightarrow> AnomalyDetectionResult option" where
  "detectBehaviorDeviation agent activities now =
     (if length activities < 10 then None
      else
        (let typeCounts = foldl (\<lambda>counts a. countType (activityType a) counts) [] activities;
             typeDistribution = map (\<lambda>(k, n). real n) typeCounts;
             stdDev = calculateStandardDeviation typeDistribution
         in if stdDev > 5
            then Some \<lparr>anomaly_agentId = agent_id agent,
                       anomalyType = BEHAVIOR_DEVIATION,
                       severity = LOW,
                       confidence = min (stdDev / 10) 1,
                       indicators = [\<lparr>indicator_type = ''behavior_variance'',
                                      indicator_value = stdDev,
                                      threshold = 5\<rparr>],
                       detectedAt = now,
                       recommendedAction = Some ''Monitor agent behavior patterns''\<rparr>
            else None))"

text \<open>\<open>if (x) anomalies.push(x)\<close>.\<close>

definition pushIf :: "'a option \<Rightarrow> 'a list" where
  "pushIf x = (case x of None \<Rightarrow> [] | Some a \<Rightarrow> [a])"

text \<open>
  \<open>detectAnomalies\<close>: the list it returns. Each anomaly is then stored and logged as an
  \<open>ANOMALY_DETECTED\<close> activity, after all five detectors have run.
\<close>

definition detectAnomalies ::
  "engine_store \<Rightarrow> string \<Rightarrow> int \<Rightarrow> error + AnomalyDetectionResult list" where
  "detectAnomalies store agentId now =
     (case getAgent (es_agents store) agentId of
        Inl e \<Rightarrow> Inl e
      | Inr agent \<Rightarrow>
          (let activities = getAgentActivity (es_activities store) agentId 200;
               relationships = getRelationships (es_relationships store) agentId
           in Inr (pushIf (detectAccessPatternAnomalies agent activities now)
                   @ pushIf (detectTrustManipulation agent activities now)
                   @ pushIf (detectCapabilityEscalation agent activities now)
                   @ pushIf (detectCollusionPatterns agent relationships now)
                   @ pushIf (detectBehaviorDeviation agent activities now))))"

section \<open>Example data\<close>

definition alice :: Agent where
  "alice = \<lparr>agent_id = ''a1'', agent_did = ''did:ethr:alice'', agent_name = ''Alice'',
     agent_type = VALIDATOR, publicKey = ''04aa'', trustScore = 0.5, reputation = 0,
     agent_status = AGENT_ACTIVE, createdAt = 0, updatedAt = 0, lastActiveAt = 0\<rparr>"

definition bob :: Agent where
  "bob = \<lparr>agent_id = ''b1'', agent_did = ''did:ethr:bob'', agent_name = ''Bob'',
     agent_type = WORKER, publicKey = ''04bb'', trustScore = 0.5, reputation = 0,
     agent_status = AGENT_ACTIVE, createdAt = 0, updatedAt = 0, lastActiveAt = 0\<rparr>"

definition fresh_store :: hub_state where
  "fresh_store = \<lparr>capabilities = [], activeCapabilities = Map.empty,
     agents = [alice, bob], agent_activities = []\<rparr>"

text \<open>A request for 10000 hours, as the tool bridge can pass it on unchecked.\<close>

definition long_request :: CapabilityRequest where
  "long_request = \<lparr>req_subject = ''did:ethr:bob'', req_actions = [''read''],
     req_resources = [''data/''], req_conditions = None, expiresInHours = Some 10000\<rparr>"

text \<open>A capability issued by Alice to Bob at time 0 for one hour, and a store holding it.\<close>

definition granted_capability :: Capability where
  "granted_capability =
     \<lparr>cap_id = ''urn:cap:1'', cap_subject = ''did:ethr:bob'', cap_issuer = ''did:ethr:alice'',
      cap_actions = [''read'', ''delegate''], cap_resources = [''data/''],
      cap_conditions = Some [], cap_notBefore = Some 0, cap_expiration = Some 3600000,
      cap_proof = None, cap_issuedAt = 0, cap_revokedAt = None, cap_status = ACTIVE\<rparr>"

definition granted_store :: hub_state where
  "granted_store = \<lparr>capabilities = [granted_capability],
     activeCapabilities = [''urn:cap:1'' \<mapsto> granted_capability],
     agents = [alice, bob], agent_activities = []\<rparr>"

text \<open>The request that grants it, and the token \<open>issueCapability\<close> signs for it.\<close>

definition hour_request :: CapabilityRequest where
  "hour_request = \<lparr>req_subject = ''did:ethr:bob'', req_actions = [''read'', ''delegate''],
     req_resources = [''data/''], req_conditions = None, expiresInHours = Some 1\<rparr>"

definition granted_token :: token where
  "granted_token = jwt_sign
     \<lparr>jti = ''urn:cap:1'', sub = ''did:ethr:bob'', iss = ''did:ethr:alice'',
      iat = 0, exp = 3600, nbf = 0,
      jwt_cap = \<lparr>jc_actions = [''read'', ''delegate''], jc_resources = [''data/''],
                 jc_conditions = None\<rparr>\<rparr> ''k''"

text \<open>The same capability, granted only where the context's \<open>env\<close> equals \<open>prod\<close>.\<close>

definition guarded_capability :: Capability where
  "guarded_capability = granted_capability
     \<lparr>cap_conditions := Some [\<lparr>cond_type = CONTEXT, parameter = ''env'', operator = EQUALS,
                               cond_value = JStr ''prod''\<rparr>]\<rparr>"

text \<open>The same capability after its revocation at 1000 ms, looked at after its expiration.\<close>

definition stale_capability :: Capability where
  "stale_capability = granted_capability\<lparr>cap_revokedAt := Some 1000, cap_status := REVOKED\<rparr>"

definition stale_store :: hub_state where
  "stale_store = \<lparr>capabilities = [stale_capability], activeCapabilities = Map.empty,
     agents = [alice, bob], agent_activities = []\<rparr>"

text \<open>The store after Alice revokes at 1000 ms, and after she revokes again at 2000 ms.\<close>

definition once_revoked :: hub_state where
  "once_revoked =
     snd (revokeCapability ''urn:cap:1'' ''did:ethr:alice'' None ''act1'' 1000 granted_store)"

definition twice_revoked :: hub_state where
  "twice_revoked =
     snd (revokeCapability ''urn:cap:1'' ''did:ethr:alice'' None ''act2'' 2000 once_revoked)"



text \<open>Two attestations issued by Alice: trust in Bob, and Carol's membership.\<close>

definition proof1 :: AttestationProof where
  "proof1 = \<lparr>ap_type = ''Ed25519Signature2020'', ap_created = ''2024-01-01T00:00:00.000Z'',
     ap_proofPurpose = ''assertionMethod'', ap_verificationMethod = ''did:ethr:alice#keys-1'',
     ap_proofValue = ''00''\<rparr>"

definition trust_in_bob :: Attestation where
  "trust_in_bob = \<lparr>att_id = ''urn:attest:1'', att_type = TRUST_ASSERTION,
     att_issuer = ''did:ethr:alice'', att_subject = ''did:ethr:bob'',
     claims = [\<lparr>claim_type = ''reliability'', claim_value = JStr ''high'',
               claim_issuer = Some ''did:ethr:alice''\<rparr>],
     att_issuedAt = 100, att_expiresAt = Some 5000, revocation = None,
     att_proof = Some proof1\<rparr>"

definition membership_of_carol :: Attestation where
  "membership_of_carol = \<lparr>att_id = ''urn:attest:2'', att_type = MEMBERSHIP,
     att_issuer = ''did:ethr:alice'', att_subject = ''did:ethr:carol'',
     claims = [], att_issuedAt = 50, att_expiresAt = None, revocation = None,
     att_proof = Some proof1\<rparr>"

text \<open>
  The engine with its default settings, a newly created agent and a store that holds
  nothing else; then the same store with one and with two capability grants logged.
\<close>

definition default_engine :: TrustEngine where
  "default_engine = \<lparr>decayRate = 0.05, boostRate = 0.1, anomalyThreshold = 0.7\<rparr>"

definition newcomer :: Agent where
  "newcomer = \<lparr>agent_id = ''n1'', agent_did = ''did:ethr:newcomer'', agent_name = ''New'',
     agent_type = WORKER, publicKey = ''04cc'', trustScore = 0.5, reputation = 0,
     agent_status = AGENT_ACTIVE, createdAt = 1000, updatedAt = 1000, lastActiveAt = 1000\<rparr>"

definition empty_store :: engine_store where
  "empty_store = \<lparr>es_agents = [newcomer], es_attestations = [], es_activities = [],
     es_relationships = [], es_anomalies = [], es_trust_scores = []\<rparr>"


definition admin_grant :: AgentActivity where
  "admin_grant = \<lparr>activity_id = ''g1'', activity_agentId = ''n1'',
     activityType = CAPABILITY_GRANTED, description = ''Capability granted by Alice'',
     timestamp = 900,
     metadata = json_object [(''capabilityId'', json_string ''urn:cap:9''),
        (''issuer'', json_string ''did:ethr:alice''),
        (''actions'', json_string_array [''admin'']),
        (''resources'', json_string_array [''system''])],
     relatedAgentIds = None\<rparr>"

definition read_grant :: AgentActivity where
  "read_grant = \<lparr>activity_id = ''g2'', activity_agentId = ''n1'',
     activityType = CAPABILITY_GRANTED, description = ''Capability granted by Alice'',
     timestamp = 800,
     metadata = json_object [(''capabilityId'', json_string ''urn:cap:8''),
        (''issuer'', json_string ''did:ethr:alice''),
        (''actions'', json_string_array [''read'']),
        (''resources'', json_string_array [''data/''])],
     relatedAgentIds = None\<rparr>"

definition granted_twice :: engine_store where
  "granted_twice = empty_store\<lparr>es_activities := [read_grant, admin_grant]\<rparr>"

definition granted_once :: engine_store where
  "granted_once = empty_store\<lparr>es_activities := [admin_grant]\<rparr>"

section \<open>Resource matching\<close>

lemma hasResourceAccess_iff:
  "hasResourceAccess resources requested \<longleftrightarrow>
     (\<exists>resource \<in> set resources.
        requested = resource \<or> prefix resource requested \<or> resource = ''*'')"
  by (simp add: hasResourceAccess_def startsWith_def list_ex_iff)

text \<open>
  C1. The resource check accepts a request exactly when it equals a granted resource,
  begins with a granted resource, or a granted resource is \<open>*\<close>
  (\<open>hasResourceAccess_iff\<close>). A grant written as the pattern \<open>agents/*\<close> is compared as
  plain text: \<open>agents/123\<close> does not begin with the eight characters \<open>agents/*\<close>, so the
  request the pattern is meant to cover is refused, as \<open>capabilities/1\<close> is.
\<close>

theorem resource_pattern_agents_refused:
  "hasResourceAccess [''agents/*''] ''agents/123'' = False
   \<and> hasResourceAccess [''agents/*''] ''capabilities/1'' = False
   \<and> hasResourceAccess [''agents/''] ''agents/123'' = True"
  by (simp add: hasResourceAccess_def startsWith_def)


section \<open>Issuance\<close>

lemma getAgentByDID_alice: "getAgentByDID (agents fresh_store) ''did:ethr:alice'' = Inr alice"
  by (simp add: getAgentByDID_def getAgent_def fresh_store_def alice_def bob_def startsWith_def)

lemma getAgentByDID_bob: "getAgentByDID (agents fresh_store) ''did:ethr:bob'' = Inr bob"
  by (simp add: getAgentByDID_def getAgent_def fresh_store_def alice_def bob_def startsWith_def)

text \<open>
  C5, as the code has it. Whenever \<open>issueCapability\<close> succeeds, the expiration is the time
  of the call plus \<open>expiresInHours\<close> hours, with 24 hours for a missing (or zero) value.
  No maximum is applied here: the bound 8760 is a constraint of the request schema of the
  HTTP route, which refuses larger values before the issuer is called.
\<close>

theorem issueCapability_expiration:
  assumes "issueCapability secret issuerDid request uuid activityId now s = (Inr tok, s')"
  shows "cap_expiration (tok_capability tok) =
           Some (now + (case expiresInHours request of
                          None \<Rightarrow> 24 | Some h \<Rightarrow> if h = 0 then 24 else h) * 3600000)"
  using assms
  by (auto simp: issueCapability_def Let_def logActivity_def
           split: sum.splits if_splits prod.splits option.splits)

theorem issueCapability_expiration_witness:
  "cap_expiration (tok_capability (projr (fst
      (issueCapability ''k'' ''did:ethr:alice'' (long_request\<lparr>expiresInHours := None\<rparr>)
         ''u1'' ''act1'' 0 fresh_store)))) = Some (24 * 3600000)"
proof -
  have c: "capabilities fresh_store = []" and a: "agent_activities fresh_store = []"
    by (simp_all add: fresh_store_def)
  have st: "agent_status alice = AGENT_ACTIVE" "agent_status bob = AGENT_ACTIVE"
    by (simp_all add: alice_def bob_def)
  obtain tok s' where r:
    "issueCapability ''k'' ''did:ethr:alice'' (long_request\<lparr>expiresInHours := None\<rparr>)
       ''u1'' ''act1'' 0 fresh_store = (Inr tok, s')"
    by (simp add: issueCapability_def getAgentByDID_alice getAgentByDID_bob long_request_def
          Let_def logActivity_def c a st)
  show ?thesis
    unfolding r using issueCapability_expiration [OF r] by (simp add: long_request_def)
qed

text \<open>
  The claim as stated fails: a request for 10000 hours, made by two active agents, is
  granted with an expiration 10000 hours ahead, beyond 8760 hours.
\<close>

theorem issueCapability_no_cap_counterexample:
  "\<not> isl (fst (issueCapability ''k'' ''did:ethr:alice'' long_request ''u1'' ''act1'' 0 fresh_store))
   \<and> cap_expiration (tok_capability (projr (fst
        (issueCapability ''k'' ''did:ethr:alice'' long_request ''u1'' ''act1'' 0 fresh_store))))
      = Some 36000000000
   \<and> (36000000000::int) > 0 + 8760 * 60 * 60 * 1000"
proof -
  have c: "capabilities fresh_store = []" and a: "agent_activities fresh_store = []"
    by (simp_all add: fresh_store_def)
  have st: "agent_status alice = AGENT_ACTIVE" "agent_status bob = AGENT_ACTIVE"
    by (simp_all add: alice_def bob_def)
  show ?thesis
    by (simp add: issueCapability_def getAgentByDID_alice getAgentByDID_bob long_request_def
          Let_def logActivity_def c a st)
qed

section \<open>Revocation\<close>

lemma activity_id_revocationActivity:
  "activity_id (revocationActivity capabilityId revokedBy reason activityId now subject) =
     activityId"
  by (simp add: revocationActivity_def)

lemma revokeCapability_run:
  assumes "filter (\<lambda>row. cap_id row = capabilityId) (capabilities s) = c # rest"
    "revokedBy = cap_issuer c \<or> checkAdminCapability s now revokedBy"
    "getAgentByDID (agents s) (cap_subject c) = Inr subject"
    "activityId \<notin> activity_id ` set (agent_activities s)"
  shows "revokeCapability capabilityId revokedBy reason activityId now s =
       (Inr (), revoked_state capabilityId now
          (revocationActivity capabilityId revokedBy reason activityId now subject) s)"
proof -
  have "revokeCapability capabilityId revokedBy reason activityId now s =
     logActivity (revocationActivity capabilityId revokedBy reason activityId now subject)
       (s\<lparr>capabilities := markRevoked capabilityId now (capabilities s),
          activeCapabilities := (activeCapabilities s)(capabilityId := None)\<rparr>)"
    using assms(2) by (auto simp add: revokeCapability_def assms(1,3) Let_def)
  also have "\<dots> = (Inr (), revoked_state capabilityId now
          (revocationActivity capabilityId revokedBy reason activityId now subject) s)"
    using assms(4)
    by (simp add: logActivity_def activity_id_revocationActivity revoked_state_def)
  finally show ?thesis .
qed

lemma revokeCapability_success:
  assumes "revokeCapability capabilityId revokedBy reason activityId now s = (Inr u, s')"
  obtains c rest subject where
    "filter (\<lambda>row. cap_id row = capabilityId) (capabilities s) = c # rest"
    "revokedBy = cap_issuer c \<or> checkAdminCapability s now revokedBy"
    "getAgentByDID (agents s) (cap_subject c) = Inr subject"
    "activityId \<notin> activity_id ` set (agent_activities s)"
    "s' = revoked_state capabilityId now
          (revocationActivity capabilityId revokedBy reason activityId now subject) s"
proof (cases "filter (\<lambda>row. cap_id row = capabilityId) (capabilities s)")
  case Nil
  with assms show ?thesis by (simp add: revokeCapability_def)
next
  case (Cons c rest)
  have auth: "revokedBy = cap_issuer c \<or> checkAdminCapability s now revokedBy"
    using assms Cons by (auto simp: revokeCapability_def split: if_splits)
  show ?thesis
  proof (cases "getAgentByDID (agents s) (cap_subject c)")
    case (Inl e)
    with assms Cons auth show ?thesis
      by (auto simp: revokeCapability_def Let_def)
  next
    case (Inr subject)
    have fresh: "activityId \<notin> activity_id ` set (agent_activities s)"
      using assms Cons auth Inr
      by (auto simp: revokeCapability_def Let_def logActivity_def
            activity_id_revocationActivity split: if_splits)
    from revokeCapability_run [OF Cons auth Inr fresh, of reason] assms
    have "s' = revoked_state capabilityId now
          (revocationActivity capabilityId revokedBy reason activityId now subject) s"
      by simp
    with Cons auth Inr fresh that show ?thesis by blast
  qed
qed

lemma filter_markRevoked:
  "filter (\<lambda>row. cap_id row = capabilityId) (markRevoked capabilityId now rows) =
     map (\<lambda>row. row\<lparr>cap_status := REVOKED, cap_revokedAt := Some now\<rparr>)
       (filter (\<lambda>row. cap_id row = capabilityId) rows)"
  by (induction rows) (simp_all add: markRevoked_def)

lemma markRevoked_twice:
  "markRevoked capabilityId now' (markRevoked capabilityId now rows) =
     map (\<lambda>row. if cap_id row = capabilityId then row\<lparr>cap_revokedAt := Some now'\<rparr> else row)
       (markRevoked capabilityId now rows)"
  by (induction rows) (simp_all add: markRevoked_def)

lemma granted_rows:
  "filter (\<lambda>row. cap_id row = ''urn:cap:1'') (capabilities granted_store) =
     [granted_capability]"
  by (simp add: granted_store_def granted_capability_def)

lemma granted_subject:
  "getAgentByDID (agents granted_store) (cap_subject granted_capability) = Inr bob"
  by (simp add: getAgentByDID_def getAgent_def granted_store_def granted_capability_def
      alice_def bob_def startsWith_def)

lemma first_revocation:
  "revokeCapability ''urn:cap:1'' ''did:ethr:alice'' None ''act1'' 1000 granted_store =
     (Inr (), once_revoked)"
proof -
  have "revokeCapability ''urn:cap:1'' ''did:ethr:alice'' None ''act1'' 1000 granted_store =
     (Inr (), revoked_state ''urn:cap:1'' 1000
        (revocationActivity ''urn:cap:1'' ''did:ethr:alice'' None ''act1'' 1000 bob)
        granted_store)"
    by (rule revokeCapability_run [OF granted_rows _ granted_subject])
       (simp_all add: granted_capability_def granted_store_def)
  then show ?thesis by (simp add: once_revoked_def)
qed

lemma once_revoked_eq:
  "once_revoked = revoked_state ''urn:cap:1'' 1000
     (revocationActivity ''urn:cap:1'' ''did:ethr:alice'' None ''act1'' 1000 bob) granted_store"
proof -
  have "revokeCapability ''urn:cap:1'' ''did:ethr:alice'' None ''act1'' 1000 granted_store =
     (Inr (), revoked_state ''urn:cap:1'' 1000
        (revocationActivity ''urn:cap:1'' ''did:ethr:alice'' None ''act1'' 1000 bob)
        granted_store)"
    by (rule revokeCapability_run [OF granted_rows _ granted_subject])
       (simp_all add: granted_capability_def granted_store_def)
  then show ?thesis by (simp add: once_revoked_def)
qed

lemma once_revoked_rows:
  "filter (\<lambda>row. cap_id row = ''urn:cap:1'') (capabilities once_revoked) =
     [granted_capability\<lparr>cap_status := REVOKED, cap_revokedAt := Some 1000\<rparr>]"
  by (simp add: once_revoked_eq revoked_state_def filter_markRevoked granted_rows)

text \<open>
  C6, as the code has it. After a successful revocation at time \<open>now\<close>, a second revocation
  by the issuer (or by a holder of an admin capability) succeeds again. It leaves the
  status revoked and changes nothing but two things: \<open>revokedAt\<close> is overwritten with the
  time of the second call, and one more \<open>CAPABILITY_REVOKED\<close> activity is appended.
\<close>

theorem revokeCapability_again:
  assumes "revokeCapability capabilityId revokedBy reason activityId now s = (Inr (), s1)"
    and "filter (\<lambda>row. cap_id row = capabilityId) (capabilities s1) = c1 # rest1"
    and "revokedBy' = cap_issuer c1 \<or> checkAdminCapability s1 now' revokedBy'"
    and "activityId' \<notin> activity_id ` set (agent_activities s1)"
  shows "\<exists>subject. getAgentByDID (agents s1) (cap_subject c1) = Inr subject \<and>
     cap_status c1 = REVOKED \<and> cap_revokedAt c1 = Some now \<and>
     revokeCapability capabilityId revokedBy' reason' activityId' now' s1 =
       (Inr (),
        s1\<lparr>capabilities :=
              map (\<lambda>row. if cap_id row = capabilityId
                          then row\<lparr>cap_revokedAt := Some now'\<rparr> else row) (capabilities s1),
            agent_activities := agent_activities s1 @
              [revocationActivity capabilityId revokedBy' reason' activityId' now' subject]\<rparr>)"
proof -
  from assms(1) obtain c rest subject where
    f: "filter (\<lambda>row. cap_id row = capabilityId) (capabilities s) = c # rest"
    and g: "getAgentByDID (agents s) (cap_subject c) = Inr subject"
    and s1: "s1 = revoked_state capabilityId now
          (revocationActivity capabilityId revokedBy reason activityId now subject) s"
    by (rule revokeCapability_success)
  have caps1: "capabilities s1 = markRevoked capabilityId now (capabilities s)"
    by (simp add: s1 revoked_state_def)
  have "c1 # rest1 =
      map (\<lambda>row. row\<lparr>cap_status := REVOKED, cap_revokedAt := Some now\<rparr>) (c # rest)"
    using assms(2) by (simp add: caps1 filter_markRevoked f)
  then have c1: "c1 = c\<lparr>cap_status := REVOKED, cap_revokedAt := Some now\<rparr>" by simp
  have g1: "getAgentByDID (agents s1) (cap_subject c1) = Inr subject"
    using g by (simp add: s1 revoked_state_def c1)
  have "revokeCapability capabilityId revokedBy' reason' activityId' now' s1 =
       (Inr (), revoked_state capabilityId now'
          (revocationActivity capabilityId revokedBy' reason' activityId' now' subject) s1)"
    by (rule revokeCapability_run [OF assms(2) assms(3) g1 assms(4)])
  also have "revoked_state capabilityId now'
          (revocationActivity capabilityId revokedBy' reason' activityId' now' subject) s1 =
        s1\<lparr>capabilities :=
              map (\<lambda>row. if cap_id row = capabilityId
                          then row\<lparr>cap_revokedAt := Some now'\<rparr> else row) (capabilities s1),
            agent_activities := agent_activities s1 @
              [revocationActivity capabilityId revokedBy' reason' activityId' now' subject]\<rparr>"
    by (simp add: revoked_state_def caps1 markRevoked_twice) (simp add: s1 revoked_state_def)
  finally show ?thesis using g1 c1 by simp
qed

theorem revokeCapability_again_witness:
  "\<exists>subject.
     getAgentByDID (agents once_revoked)
       (cap_subject (granted_capability\<lparr>cap_status := REVOKED, cap_revokedAt := Some 1000\<rparr>))
       = Inr subject \<and>
     revokeCapability ''urn:cap:1'' ''did:ethr:alice'' None ''act2'' 2000 once_revoked =
       (Inr (),
        once_revoked\<lparr>capabilities :=
              map (\<lambda>row. if cap_id row = ''urn:cap:1''
                          then row\<lparr>cap_revokedAt := Some 2000\<rparr> else row)
                (capabilities once_revoked),
            agent_activities := agent_activities once_revoked @
              [revocationActivity ''urn:cap:1'' ''did:ethr:alice'' None ''act2'' 2000 subject]\<rparr>)"
proof -
  have auth: "''did:ethr:alice'' =
        cap_issuer (granted_capability\<lparr>cap_status := REVOKED, cap_revokedAt := Some 1000\<rparr>)
      \<or> checkAdminCapability once_revoked 2000 ''did:ethr:alice''"
    by (simp add: granted_capability_def)
  have fresh: "''act2'' \<notin> activity_id ` set (agent_activities once_revoked)"
    by (simp add: once_revoked_eq revoked_state_def granted_store_def
          activity_id_revocationActivity)
  from revokeCapability_again [OF first_revocation once_revoked_rows auth fresh, of None]
  show ?thesis by blast
qed

text \<open>
  The claim as stated fails: after Alice revokes at 1000 ms and again at 2000 ms, both
  calls succeed, \<open>revokedAt\<close> has moved from 1000 to 2000, and the activity log has grown
  from one entry to two.
\<close>

theorem revokeCapability_not_idempotent_counterexample:
  "fst (revokeCapability ''urn:cap:1'' ''did:ethr:alice'' None ''act1'' 1000 granted_store)
     = Inr ()
   \<and> fst (revokeCapability ''urn:cap:1'' ''did:ethr:alice'' None ''act2'' 2000 once_revoked)
     = Inr ()
   \<and> map cap_status (capabilities once_revoked) = [REVOKED]
   \<and> map cap_status (capabilities twice_revoked) = [REVOKED]
   \<and> map cap_revokedAt (capabilities once_revoked) = [Some 1000]
   \<and> map cap_revokedAt (capabilities twice_revoked) = [Some 2000]
   \<and> length (agent_activities once_revoked) = 1
   \<and> length (agent_activities twice_revoked) = 2
   \<and> twice_revoked \<noteq> once_revoked"
proof -
  have g1: "getAgentByDID (agents once_revoked)
       (cap_subject (granted_capability\<lparr>cap_status := REVOKED, cap_revokedAt := Some 1000\<rparr>))
       = Inr bob"
    using granted_subject by (simp add: once_revoked_eq revoked_state_def)
  have auth: "''did:ethr:alice'' =
        cap_issuer (granted_capability\<lparr>cap_status := REVOKED, cap_revokedAt := Some 1000\<rparr>)
      \<or> checkAdminCapability once_revoked 2000 ''did:ethr:alice''"
    by (simp add: granted_capability_def)
  have fresh: "''act2'' \<notin> activity_id ` set (agent_activities once_revoked)"
    by (simp add: once_revoked_eq revoked_state_def granted_store_def
          activity_id_revocationActivity)
  have second:
    "revokeCapability ''urn:cap:1'' ''did:ethr:alice'' None ''act2'' 2000 once_revoked =
       (Inr (), revoked_state ''urn:cap:1'' 2000
          (revocationActivity ''urn:cap:1'' ''did:ethr:alice'' None ''act2'' 2000 bob)
          once_revoked)"
    by (rule revokeCapability_run [OF once_revoked_rows auth g1 fresh])
  have two: "twice_revoked = revoked_state ''urn:cap:1'' 2000
          (revocationActivity ''urn:cap:1'' ''did:ethr:alice'' None ''act2'' 2000 bob)
          once_revoked"
    by (simp add: twice_revoked_def second)
  have caps1: "capabilities once_revoked =
      [granted_capability\<lparr>cap_status := REVOKED, cap_revokedAt := Some 1000\<rparr>]"
    by (simp add: once_revoked_eq revoked_state_def markRevoked_def granted_store_def
          granted_capability_def)
  have caps2: "capabilities twice_revoked =
      [granted_capability\<lparr>cap_status := REVOKED, cap_revokedAt := Some 2000\<rparr>]"
    by (simp add: two revoked_state_def caps1 markRevoked_def granted_capability_def)
  have acts1: "length (agent_activities once_revoked) = 1"
    by (simp add: once_revoked_eq revoked_state_def granted_store_def)
  have acts2: "length (agent_activities twice_revoked) = 2"
    by (simp add: two revoked_state_def acts1)
  have "twice_revoked \<noteq> once_revoked"
    using acts1 acts2 by auto
  then show ?thesis
    by (simp add: first_revocation second caps1 caps2 acts1 acts2)
qed

section \<open>Delegation\<close>

text \<open>
  C10. \<open>delegateCapability\<close> looks only at the subject and the actions of the parent
  capability: whenever the delegator is its subject and \<open>delegate\<close> is among its actions,
  a delegation record is returned, whatever the parent's status and expiration.
\<close>

theorem delegateCapability_ignores_status:
  assumes "filter (\<lambda>row. cap_id row = capabilityId) (capabilities s) = c # rest"
    and "cap_subject c = d"
    and "''delegate'' \<in> set (cap_actions c)"
  shows "\<exists>dl. delegateCapability capabilityId d e restr hours newId now s = Inr dl
           \<and> delegation_capabilityId dl = capabilityId \<and> delegator dl = d \<and> delegatee dl = e"
  using assms by (simp add: delegateCapability_def)

theorem delegateCapability_ignores_status_witness:
  "cap_status stale_capability = REVOKED
   \<and> cap_expiration stale_capability = Some 3600000
   \<and> (\<exists>dl. delegateCapability ''urn:cap:1'' ''did:ethr:bob'' ''did:ethr:carol'' None None
               ''d1'' 7200000 stale_store = Inr dl
          \<and> delegation_capabilityId dl = ''urn:cap:1'' \<and> delegator dl = ''did:ethr:bob''
          \<and> delegatee dl = ''did:ethr:carol'')"
proof -
  have f: "filter (\<lambda>row. cap_id row = ''urn:cap:1'') (capabilities stale_store) =
      stale_capability # []"
    by (simp add: stale_store_def stale_capability_def granted_capability_def)
  have s: "cap_subject stale_capability = ''did:ethr:bob''"
    by (simp add: stale_capability_def granted_capability_def)
  have d: "''delegate'' \<in> set (cap_actions stale_capability)"
    by (simp add: stale_capability_def granted_capability_def)
  show ?thesis
    using delegateCapability_ignores_status
      [OF f s d, of "''did:ethr:carol''" None None "''d1''" 7200000]
    by (simp add: stale_capability_def granted_capability_def)
qed


section \<open>Verification order\<close>

text \<open>
  The example token and row are what \<open>issueCapability\<close> produces: issuing
  \<open>hour_request\<close> at time 0 signs \<open>granted_token\<close>, whose \<open>exp\<close> is the expiration in
  seconds, and stores \<open>granted_capability\<close>.
\<close>

lemma issue_hour_request:
  "tok_token (projr (fst (issueCapability ''k'' ''did:ethr:alice'' hour_request ''1'' ''act0'' 0
      fresh_store))) = granted_token
   \<and> capabilities (snd (issueCapability ''k'' ''did:ethr:alice'' hour_request ''1'' ''act0'' 0
      fresh_store)) = [granted_capability]"
proof -
  have c: "capabilities fresh_store = []" and a: "agent_activities fresh_store = []"
    by (simp_all add: fresh_store_def)
  have st: "agent_status alice = AGENT_ACTIVE" "agent_status bob = AGENT_ACTIVE"
    by (simp_all add: alice_def bob_def)
  show ?thesis
    by (simp add: issueCapability_def getAgentByDID_alice getAgentByDID_bob hour_request_def
          Let_def logActivity_def c a st granted_token_def granted_capability_def)
qed

text \<open>
  C3, as the code has it. The checks run in this order, each ending the call: (1) the
  token (\<open>jwt.verify\<close>: signature and not-before give 'Invalid token', the token's own
  \<open>exp\<close> time gives 'Token has expired'); (2) the row exists and is not revoked; (3) its
  status is not expired; (4) subject; (5) action; (6) resource; (7) conditions. The time
  check belongs to step (1): a token past its \<open>exp\<close> is refused with the expiration
  error before the row is read, so a revoked capability gives the revocation error only
  while its token still verifies.
\<close>

theorem verifyCapability_order:
  "(jwt_verify (vr_token request) secret (now div 1000) = Inl TokenExpiredError \<longrightarrow>
      verifyCapability secret rows now request = invalid [TokenHasExpired])
   \<and> (jwt_verify (vr_token request) secret (now div 1000) = Inl JsonWebTokenError \<longrightarrow>
      verifyCapability secret rows now request = invalid [InvalidToken])
   \<and> (jwt_verify (vr_token request) secret (now div 1000) = Inr decoded \<longrightarrow>
       (filter (\<lambda>row. cap_id row = jti decoded) rows = [] \<longrightarrow>
          verifyCapability secret rows now request = invalid [CapabilityNotFound])
     \<and> (filter (\<lambda>row. cap_id row = jti decoded) rows = capability # rest \<longrightarrow>
         (cap_status capability = REVOKED \<longrightarrow>
            verifyCapability secret rows now request = invalid [CapabilityRevoked])
       \<and> (cap_status capability = EXPIRED \<longrightarrow>
            verifyCapability secret rows now request = invalid [CapabilityExpired])
       \<and> (cap_status capability \<noteq> REVOKED \<and> cap_status capability \<noteq> EXPIRED \<longrightarrow>
           (sub decoded \<noteq> cap_subject capability \<longrightarrow>
              verifyCapability secret rows now request = invalid [SubjectMismatch])
         \<and> (sub decoded = cap_subject capability \<longrightarrow>
             (vr_action request \<notin> set (cap_actions capability) \<longrightarrow>
                verifyCapability secret rows now request =
                  invalid [ActionNotPermitted (vr_action request)])
           \<and> (vr_action request \<in> set (cap_actions capability) \<longrightarrow>
               (\<not> hasResourceAccess (cap_resources capability) (vr_resource request) \<longrightarrow>
                  verifyCapability secret rows now request =
                    invalid [ResourceNotAccessible (vr_resource request)])
             \<and> (hasResourceAccess (cap_resources capability) (vr_resource request) \<longrightarrow>
                 (conditionErrors capability request \<noteq> [] \<longrightarrow>
                    verifyCapability secret rows now request =
                      invalid (conditionErrors capability request))
               \<and> (conditionErrors capability request = [] \<longrightarrow>
                    valid (verifyCapability secret rows now request))))))))
   \<and> (vr_token request = Signed payload secret \<and> nbf payload \<le> now div 1000
        \<and> exp payload \<le> now div 1000 \<longrightarrow>
      verifyCapability secret rows now request = invalid [TokenHasExpired])"
  by (auto simp: verifyCapability_def conditionErrors_def Let_def jwt_verify_def)

text \<open>
  Half an hour after issuance the token of the revoked capability still verifies, and a
  request that would also fail on its action and its resource gets the revocation error.
\<close>

theorem verifyCapability_order_witness:
  "verifyCapability ''k'' [stale_capability] 1800000
        \<lparr>vr_token = granted_token, vr_action = ''write'', vr_resource = ''other/42'',
         vr_context = None\<rparr> = invalid [CapabilityRevoked]"
proof -
  let ?request = "\<lparr>vr_token = granted_token, vr_action = ''write'',
         vr_resource = ''other/42'', vr_context = None\<rparr>"
  let ?decoded = "\<lparr>jti = ''urn:cap:1'', sub = ''did:ethr:bob'', iss = ''did:ethr:alice'',
      iat = 0, exp = 3600, nbf = 0,
      jwt_cap = \<lparr>jc_actions = [''read'', ''delegate''], jc_resources = [''data/''],
                 jc_conditions = None\<rparr>\<rparr>"
  have j: "jwt_verify (vr_token ?request) ''k'' (1800000 div 1000) = Inr ?decoded"
    by (simp add: granted_token_def jwt_sign_def jwt_verify_def)
  have f: "filter (\<lambda>row. cap_id row = jti ?decoded) [stale_capability] =
      stale_capability # []"
    by (simp add: stale_capability_def granted_capability_def)
  have r: "cap_status stale_capability = REVOKED"
    by (simp add: stale_capability_def)
  from verifyCapability_order [where request = ?request and secret = "''k''"
       and now = 1800000 and decoded = ?decoded and rows = "[stale_capability]"
       and capability = stale_capability and rest = "[]"] j f r
  show ?thesis by blast
qed

text \<open>
  The claim as stated fails: the capability is revoked and, two hours after issuance,
  past its expiration; its own token is refused with 'Token has expired', not with the
  revocation error.
\<close>

theorem verifyCapability_revoked_expired_counterexample:
  "cap_status stale_capability = REVOKED
   \<and> cap_expiration stale_capability = Some 3600000
   \<and> (3600000::int) < 7200000
   \<and> verifyCapability ''k'' [stale_capability] 7200000
        \<lparr>vr_token = granted_token, vr_action = ''read'', vr_resource = ''data/42'',
         vr_context = None\<rparr> = invalid [TokenHasExpired]"
  by (simp add: verifyCapability_def granted_token_def jwt_sign_def jwt_verify_def
        stale_capability_def granted_capability_def)

section \<open>Conditions and absent context keys\<close>

lemma strict_eq_undefined: "strict_eq e JUndefined \<longleftrightarrow> e = JUndefined"
  by (cases e) simp_all

lemma strict_eq_undefined_left: "strict_eq JUndefined v \<longleftrightarrow> v = JUndefined"
  by (cases v) simp_all

lemma strict_eq_object: "strict_eq e JObject = False" "strict_eq JObject v = False"
  by (cases e; simp) simp

lemma array_includes_undefined: "array_includes vs JUndefined \<longleftrightarrow> JUndefined \<in> set vs"
  by (induction vs) (auto simp: array_includes_def strict_eq_undefined)

lemma array_includes_object: "array_includes vs JObject = False"
  by (induction vs) (auto simp: array_includes_def strict_eq_object)

lemma property_get_absent:
  "obj key = None \<Longrightarrow> property_get obj key = JUndefined \<or> property_get obj key = JObject"
  by (simp add: property_get_def)

text \<open>
  C4, as the code has it. For a condition whose parameter is not a key of the supplied
  context: \<open>equals\<close> fails (for any value other than \<open>undefined\<close>), and \<open>in\<close> fails for an
  array value (without \<open>undefined\<close> among its elements); \<open>greater_than\<close>, \<open>less_than\<close>
  and \<open>contains\<close> are skipped by their type guards, and \<open>not_equals\<close>, \<open>before\<close> and
  \<open>after\<close> have no case at all, so none of these produces an error. When the request
  carries no context, no condition is evaluated and a request that passes the earlier
  checks is valid whatever the conditions are.
\<close>

theorem evaluateCondition_absent_key:
  assumes "ctx (parameter condition) = None"
  shows "(operator condition = EQUALS \<and> cond_value condition \<noteq> JUndefined \<longrightarrow>
            evaluateCondition condition ctx =
              [ConditionFailed (parameter condition) EQUALS (cond_value condition)])
       \<and> (operator condition = IN \<and> cond_value condition = JArr vs \<and> JUndefined \<notin> set vs \<longrightarrow>
            evaluateCondition condition ctx =
              [ConditionFailed (parameter condition) IN (cond_value condition)])
       \<and> (operator condition \<in> {GREATER_THAN, LESS_THAN, CONTAINS, NOT_EQUALS, BEFORE, AFTER} \<longrightarrow>
            evaluateCondition condition ctx = [])
       \<and> (vr_context request = None
            \<and> jwt_verify (vr_token request) secret (now div 1000) = Inr decoded
            \<and> filter (\<lambda>row. cap_id row = jti decoded) rows = capability # rest
            \<and> cap_status capability \<noteq> REVOKED \<and> cap_status capability \<noteq> EXPIRED
            \<and> sub decoded = cap_subject capability
            \<and> vr_action request \<in> set (cap_actions capability)
            \<and> hasResourceAccess (cap_resources capability) (vr_resource request) \<longrightarrow>
            valid (verifyCapability secret rows now request))"
proof -
  have "vr_context request = None
            \<and> jwt_verify (vr_token request) secret (now div 1000) = Inr decoded
            \<and> filter (\<lambda>row. cap_id row = jti decoded) rows = capability # rest
            \<and> cap_status capability \<noteq> REVOKED \<and> cap_status capability \<noteq> EXPIRED
            \<and> sub decoded = cap_subject capability
            \<and> vr_action request \<in> set (cap_actions capability)
            \<and> hasResourceAccess (cap_resources capability) (vr_resource request) \<longrightarrow>
            valid (verifyCapability secret rows now request)"
    by (auto simp: verifyCapability_def split: option.splits)
  moreover have "(operator condition = EQUALS \<and> cond_value condition \<noteq> JUndefined \<longrightarrow>
            evaluateCondition condition ctx =
              [ConditionFailed (parameter condition) EQUALS (cond_value condition)])
       \<and> (operator condition = IN \<and> cond_value condition = JArr vs \<and> JUndefined \<notin> set vs \<longrightarrow>
            evaluateCondition condition ctx =
              [ConditionFailed (parameter condition) IN (cond_value condition)])
       \<and> (operator condition \<in> {GREATER_THAN, LESS_THAN, CONTAINS, NOT_EQUALS, BEFORE, AFTER} \<longrightarrow>
            evaluateCondition condition ctx = [])"
    using property_get_absent [of ctx "parameter condition"] assms
    by (auto simp: evaluateCondition_def Let_def strict_eq_undefined_left strict_eq_object
          array_includes_undefined array_includes_object)
  ultimately show ?thesis by blast
qed

theorem evaluateCondition_absent_key_witness:
  "evaluateCondition
     \<lparr>cond_type = CONTEXT, parameter = ''env'', operator = EQUALS, cond_value = JStr ''prod''\<rparr>
     Map.empty = [ConditionFailed ''env'' EQUALS (JStr ''prod'')]
   \<and> valid (verifyCapability ''k'' [guarded_capability] 1800000
        \<lparr>vr_token = granted_token, vr_action = ''read'', vr_resource = ''data/42'',
         vr_context = None\<rparr>)"
proof -
  let ?condition = "\<lparr>cond_type = CONTEXT, parameter = ''env'', operator = EQUALS,
     cond_value = JStr ''prod''\<rparr>"
  let ?request = "\<lparr>vr_token = granted_token, vr_action = ''read'',
         vr_resource = ''data/42'', vr_context = None\<rparr>"
  let ?decoded = "\<lparr>jti = ''urn:cap:1'', sub = ''did:ethr:bob'', iss = ''did:ethr:alice'',
      iat = 0, exp = 3600, nbf = 0,
      jwt_cap = \<lparr>jc_actions = [''read'', ''delegate''], jc_resources = [''data/''],
                 jc_conditions = None\<rparr>\<rparr>"
  have a: "Map.empty (parameter ?condition) = None" by simp
  have j: "jwt_verify (vr_token ?request) ''k'' (1800000 div 1000) = Inr ?decoded"
    by (simp add: granted_token_def jwt_sign_def jwt_verify_def)
  have f: "filter (\<lambda>row. cap_id row = jti ?decoded) [guarded_capability] =
      guarded_capability # []"
    by (simp add: guarded_capability_def granted_capability_def)
  have c: "cap_status guarded_capability \<noteq> REVOKED" "cap_status guarded_capability \<noteq> EXPIRED"
    "sub ?decoded = cap_subject guarded_capability"
    "vr_action ?request \<in> set (cap_actions guarded_capability)"
    "hasResourceAccess (cap_resources guarded_capability) (vr_resource ?request)"
    by (simp_all add: guarded_capability_def granted_capability_def hasResourceAccess_def
          startsWith_def)
  from evaluateCondition_absent_key [OF a, where request = ?request and secret = "''k''"
       and now = 1800000 and decoded = ?decoded and rows = "[guarded_capability]"
       and capability = guarded_capability and rest = "[]"] j f c
  show ?thesis by simp
qed

text \<open>
  The claim as stated fails: with the key \<open>level\<close> absent, \<open>greater_than\<close> and
  \<open>not_equals\<close> conditions produce no error; and a capability guarded by an \<open>equals\<close>
  condition verifies as valid when the request carries no context at all.
\<close>

theorem evaluateCondition_absent_key_counterexample:
  "evaluateCondition
     \<lparr>cond_type = CONTEXT, parameter = ''level'', operator = GREATER_THAN,
      cond_value = JNum 5\<rparr> Map.empty = []
   \<and> evaluateCondition
     \<lparr>cond_type = CONTEXT, parameter = ''level'', operator = NOT_EQUALS,
      cond_value = JNum 5\<rparr> Map.empty = []
   \<and> verifyCapability ''k'' [guarded_capability] 1800000
        \<lparr>vr_token = granted_token, vr_action = ''read'', vr_resource = ''data/42'',
         vr_context = None\<rparr> =
      \<lparr>valid = True, vres_capability = Some guarded_capability,
       vres_subject = Some ''did:ethr:bob'',
       allowedActions = Some [''read'', ''delegate''], errors = None\<rparr>"
  by (simp add: evaluateCondition_def property_get_def object_prototype_keys_def
        verifyCapability_def granted_token_def jwt_sign_def jwt_verify_def
        guarded_capability_def granted_capability_def hasResourceAccess_def startsWith_def)


section \<open>DID ownership\<close>



section \<open>Attestation chains\<close>

text \<open>
  C8. When \<open>buildAttestationChain\<close> reports \<open>chainValid\<close>, every attestation of the chain
  it returns is unrevoked and, if it expires at all, expires after the time of the check.
\<close>

theorem buildAttestationChain_valid:
  assumes "chainValid (buildAttestationChain rows subject attestationType dbNow now)"
  shows "\<forall>att \<in> set (chain_attestations
                      (buildAttestationChain rows subject attestationType dbNow now)).
           revocation att = None
           \<and> (case att_expiresAt att of None \<Rightarrow> True | Some e \<Rightarrow> now < e)"
  using assms by (simp add: buildAttestationChain_def Let_def list_all_iff)

lemma chain_of_bob:
  "chain_attestations (buildAttestationChain [trust_in_bob, membership_of_carol]
      ''did:ethr:bob'' None 1000 1000) = [trust_in_bob, membership_of_carol]"
  by (simp add: buildAttestationChain_def listAttestations_def matchesFilter_def validFor_def
        trust_in_bob_def membership_of_carol_def Let_def)

theorem buildAttestationChain_valid_witness:
  "chainValid (buildAttestationChain [trust_in_bob, membership_of_carol]
      ''did:ethr:bob'' None 1000 1000)
   \<and> list_all (\<lambda>att. revocation att = None
                 \<and> (case att_expiresAt att of None \<Rightarrow> True | Some e \<Rightarrow> 1000 < e))
        (chain_attestations (buildAttestationChain [trust_in_bob, membership_of_carol]
            ''did:ethr:bob'' None 1000 1000))"
proof -
  have v: "chainValid (buildAttestationChain [trust_in_bob, membership_of_carol]
      ''did:ethr:bob'' None 1000 1000)"
    by (simp add: buildAttestationChain_def listAttestations_def matchesFilter_def validFor_def
        trust_in_bob_def membership_of_carol_def Let_def)
  from buildAttestationChain_valid [OF v] v show ?thesis
    by (simp add: list_all_iff)
qed

section \<open>Trust score of a new agent\<close>

lemma sub_scores:
  "calculateAttestationScore [] = 0.5"
  "calculateActivityScore [] now = 0.5"
  "calculateRelationshipScore ([], []) = 0.5"
  "calculateAgeScore now now = 0"
  "calculateReputationScore 0 = 0.5"
  "calculateRecencyWeight [] now = 0"
  by (simp_all add: calculateAttestationScore_def calculateActivityScore_def
        calculateRelationshipScore_def calculateAgeScore_def calculateReputationScore_def
        calculateRecencyWeight_def)

lemma getAgent_member: "getAgent rows idOrDid = Inr agent \<Longrightarrow> agent \<in> set rows"
proof -
  assume a: "getAgent rows idOrDid = Inr agent"
  let ?P = "\<lambda>row. (if startsWith idOrDid ''did:'' then agent_did row else agent_id row)
                = idOrDid"
  from a obtain rest where "filter ?P rows = agent # rest"
    by (auto simp: getAgent_def Let_def split: list.splits)
  then have "agent \<in> set (filter ?P rows)" by simp
  then show ?thesis by simp
qed

lemma storeTrustScore_run:
  assumes "scoreId \<notin> ts_id ` set (es_trust_scores store)"
    and "calc_agentId calculation \<in> agent_id ` set (es_agents store)"
  shows "storeTrustScore calculation scoreId now store =
     (Inr (),
      store\<lparr>es_trust_scores := es_trust_scores store @
              [\<lparr>ts_id = scoreId, ts_agent_id = calc_agentId calculation,
                ts_score = toDecimal2 (finalScore calculation),
                ts_calculated_at = now\<rparr>]\<rparr>)"
  using assms by (simp add: storeTrustScore_def)

lemma calculateTrustScore_newcomer_value:
  assumes "getAgent (es_agents store) agentId = Inr agent"
    and "agentId = agent_id agent"
    and "scoreId \<notin> ts_id ` set (es_trust_scores store)"
    and "fst (listAttestations (es_attestations store) (validFor (agent_did agent)) 1 100 now) = []"
    and "getAgentActivity (es_activities store) agentId 100 = []"
    and "getRelationships (es_relationships store) agentId = ([], [])"
    and "reputation agent = 0"
    and "createdAt agent = now"
  shows "fst (calculateTrustScore engine store agentId scoreId now) =
     Inr \<lparr>calc_agentId = agentId, baseScore = 0.95, calc_attestations = 0,
          positiveInteractions = 0, negativeInteractions = 0, recencyWeight = 0,
          anomalyPenalty = calculateAnomalyPenalty (es_anomalies store) agentId,
          finalScore = clamp (0.95 - decayRate engine * 0.5
                        - calculateAnomalyPenalty (es_anomalies store) agentId) 0 1\<rparr>"
proof -
  have m: "agentId \<in> agent_id ` set (es_agents store)"
    using getAgent_member [OF assms(1)] assms(2) by blast
  have st: "\<And>c. calc_agentId c = agentId \<Longrightarrow>
      storeTrustScore c scoreId now store =
        (Inr (),
         store\<lparr>es_trust_scores := es_trust_scores store @
              [\<lparr>ts_id = scoreId, ts_agent_id = calc_agentId c,
                ts_score = toDecimal2 (finalScore c), ts_calculated_at = now\<rparr>]\<rparr>)"
    using assms(3) m by (simp add: storeTrustScore_run)
  show ?thesis
    unfolding calculateTrustScore_def assms(1) sum.case Let_def assms(4-8) sub_scores
    by (simp add: st)
qed

text \<open>
  C7, as the code has it. For an agent, addressed by its id, with no valid attestation,
  no activity record, no relationship, reputation 0 and age 0, the five sub-scores take
  their neutral values 0.5, 0.5, 0.5, 0 and 0.5; weighted by 0.3, 0.2, 0.2, 0.1 and 0.2
  they add 0.45 to the base 0.5, so \<open>baseScore\<close> is 0.95. The recency weight is 0,
  which subtracts \<open>decayRate \<times> 0.5\<close>, and the anomaly penalty is subtracted before
  clamping to \<open>[0, 1]\<close>. With no unresolved anomaly and a decay rate in \<open>[0, 1]\<close> the
  final score is \<open>0.95 - decayRate \<times> 0.5\<close>, which is at least 0.45. The call returns
  when the id drawn for the stored row is new; addressed by its DID, the same agent
  makes the insert fail on the foreign key and the call throws.
\<close>

theorem calculateTrustScore_newcomer:
  assumes "getAgent (es_agents store) agentId = Inr agent"
    and "agentId = agent_id agent"
    and "scoreId \<notin> ts_id ` set (es_trust_scores store)"
    and "fst (listAttestations (es_attestations store) (validFor (agent_did agent)) 1 100 now) = []"
    and "getAgentActivity (es_activities store) agentId 100 = []"
    and "getRelationships (es_relationships store) agentId = ([], [])"
    and "reputation agent = 0"
    and "createdAt agent = now"
  shows "\<exists>calc. fst (calculateTrustScore engine store agentId scoreId now) = Inr calc
           \<and> baseScore calc = 0.95
           \<and> finalScore calc =
               clamp (0.95 - decayRate engine * 0.5
                        - calculateAnomalyPenalty (es_anomalies store) agentId) 0 1
           \<and> (calculateAnomalyPenalty (es_anomalies store) agentId = 0
                \<and> 0 \<le> decayRate engine \<and> decayRate engine \<le> 1 \<longrightarrow>
                finalScore calc = 0.95 - decayRate engine * 0.5 \<and> 0.45 \<le> finalScore calc)"
proof -
  have "calculateAnomalyPenalty (es_anomalies store) agentId = 0
          \<and> 0 \<le> decayRate engine \<and> decayRate engine \<le> 1 \<longrightarrow>
        clamp (0.95 - decayRate engine * 0.5
                 - calculateAnomalyPenalty (es_anomalies store) agentId) 0 1
          = 0.95 - decayRate engine * 0.5
        \<and> 0.45 \<le> clamp (0.95 - decayRate engine * 0.5
                 - calculateAnomalyPenalty (es_anomalies store) agentId) 0 1"
    by (auto simp: clamp_def)
  then show ?thesis
    unfolding calculateTrustScore_newcomer_value [OF assms] by simp
qed

lemma newcomer_found: "getAgent (es_agents empty_store) ''n1'' = Inr newcomer"
  by (simp add: getAgent_def empty_store_def newcomer_def startsWith_def)

lemma newcomer_facts:
  "''n1'' = agent_id newcomer"
  "''s1'' \<notin> ts_id ` set (es_trust_scores empty_store)"
  "fst (listAttestations (es_attestations empty_store)
              (validFor (agent_did newcomer)) 1 100 1000) = []"
  "getAgentActivity (es_activities empty_store) ''n1'' 100 = []"
  "getRelationships (es_relationships empty_store) ''n1'' = ([], [])"
  "reputation newcomer = 0" "createdAt newcomer = 1000"
  "calculateAnomalyPenalty (es_anomalies empty_store) ''n1'' = 0"
  by (simp_all add: listAttestations_def getAgentActivity_def getRelationships_def
        calculateAnomalyPenalty_def getAnomalyHistory_def empty_store_def newcomer_def)

theorem calculateTrustScore_newcomer_witness:
  "\<exists>calc. fst (calculateTrustScore default_engine empty_store ''n1'' ''s1'' 1000) = Inr calc
      \<and> baseScore calc = 0.95 \<and> finalScore calc = 0.925"
proof -
  from calculateTrustScore_newcomer
    [OF newcomer_found newcomer_facts(1-7), of default_engine]
  show ?thesis by (auto simp: newcomer_facts(8) default_engine_def)
qed

text \<open>
  The claim as stated fails: with the default decay rate 0.05 the agent just created
  scores 0.925, above 0.5.
\<close>

theorem calculateTrustScore_newcomer_counterexample:
  "es_attestations empty_store = [] \<and> es_activities empty_store = []
   \<and> es_relationships empty_store = [] \<and> es_anomalies empty_store = []
   \<and> reputation newcomer = 0 \<and> createdAt newcomer = 1000
   \<and> decayRate default_engine = 0.05
   \<and> map_sum id finalScore
        (fst (calculateTrustScore default_engine empty_store ''n1'' ''s1'' 1000))
        = Inr 0.925
   \<and> \<not> ((0.925::real) \<le> 0.5)"
proof -
  have "map_sum id finalScore
        (fst (calculateTrustScore default_engine empty_store ''n1'' ''s1'' 1000))
        = Inr 0.925"
    unfolding calculateTrustScore_newcomer_value [OF newcomer_found newcomer_facts(1-7)]
    by (simp add: newcomer_facts(8) default_engine_def clamp_def)
  then show ?thesis
    by (simp add: empty_store_def newcomer_def default_engine_def)
qed

text \<open>
  Addressed by its DID, the same agent is found and scored, but the row to store names
  the DID where the table wants an agent's id: the call ends in the database's error and
  the store is left as it was.
\<close>

lemma calculateTrustScore_by_did:
  "calculateTrustScore default_engine empty_store ''did:ethr:newcomer'' ''s1'' 1000 =
     (Inl DatabaseError, empty_store)"
proof -
  have g: "getAgent (es_agents empty_store) ''did:ethr:newcomer'' = Inr newcomer"
    by (simp add: getAgent_def empty_store_def newcomer_def startsWith_def)
  have s: "\<And>c. calc_agentId c = ''did:ethr:newcomer'' \<Longrightarrow>
      storeTrustScore c ''s1'' 1000 empty_store = (Inl DatabaseError, empty_store)"
    by (simp add: storeTrustScore_def empty_store_def newcomer_def)
  show ?thesis
    unfolding calculateTrustScore_def g sum.case Let_def
    by (simp add: s)
qed

section \<open>Capability escalation\<close>

lemma detectCapabilityEscalation_fires:
  "detectCapabilityEscalation agent activities now \<noteq> None \<longleftrightarrow>
     2 \<le> length (filter (\<lambda>a. activityType a = CAPABILITY_GRANTED) activities)
     \<and> (\<exists>a \<in> set activities.
           activityType a = CAPABILITY_GRANTED \<and> string_includes (metadata a) ''admin'')"
  by (auto simp: detectCapabilityEscalation_def Let_def filter_empty_conv)

text \<open>
  C9, as the code has it. The escalation detector fires exactly when the agent's 200 most
  recent activities hold at least two capability grants, at least one of which mentions
  \<open>admin\<close> in its metadata (\<open>detectCapabilityEscalation_fires\<close>). When it fires,
  \<open>detectAnomalies\<close> reports a capability-escalation anomaly of severity high and
  confidence 0.8; and when the other four detectors find nothing, that anomaly is the
  only one reported.
\<close>

theorem detectAnomalies_escalation:
  assumes "getAgent (es_agents store) agentId = Inr agent"
    and "activities = getAgentActivity (es_activities store) agentId 200"
    and "relationships = getRelationships (es_relationships store) agentId"
    and "2 \<le> length (filter (\<lambda>a. activityType a = CAPABILITY_GRANTED) activities)"
    and "\<exists>a \<in> set activities.
           activityType a = CAPABILITY_GRANTED \<and> string_includes (metadata a) ''admin''"
  shows "\<exists>esc. detectCapabilityEscalation agent activities now = Some esc
           \<and> anomalyType esc = CAPABILITY_ESCALATION \<and> severity esc = HIGH
           \<and> confidence esc = 0.8
           \<and> esc \<in> set (projr (detectAnomalies store agentId now))
           \<and> (detectAccessPatternAnomalies agent activities now = None
                \<and> detectTrustManipulation agent activities now = None
                \<and> detectCollusionPatterns agent relationships now = None
                \<and> detectBehaviorDeviation agent activities now = None \<longrightarrow>
              detectAnomalies store agentId now = Inr [esc])"
proof -
  from assms(4,5) obtain esc where e: "detectCapabilityEscalation agent activities now = Some esc"
    using detectCapabilityEscalation_fires [of agent activities now] by auto
  then have "anomalyType esc = CAPABILITY_ESCALATION \<and> severity esc = HIGH
      \<and> confidence esc = 0.8"
    by (auto simp: detectCapabilityEscalation_def Let_def split: if_splits)
  moreover have "esc \<in> set (projr (detectAnomalies store agentId now))"
    using e assms(1,2) by (simp add: detectAnomalies_def Let_def pushIf_def)
  moreover have "detectAccessPatternAnomalies agent activities now = None
                \<and> detectTrustManipulation agent activities now = None
                \<and> detectCollusionPatterns agent relationships now = None
                \<and> detectBehaviorDeviation agent activities now = None \<longrightarrow>
              detectAnomalies store agentId now = Inr [esc]"
    using e assms(1,2,3) by (simp add: detectAnomalies_def Let_def pushIf_def)
  ultimately show ?thesis using e by blast
qed

lemma admin_grant_mentions_admin: "string_includes (metadata admin_grant) ''admin''"
  by (simp add: admin_grant_def json_object_def json_string_def json_string_array_def
        json_escape_def)

text \<open>
  The claim as stated fails: a single capability grant whose metadata mentions \<open>admin\<close>
  is below the detector's threshold of two grants, and no anomaly is reported.
\<close>

theorem detectAnomalies_single_grant_counterexample:
  "activityType admin_grant = CAPABILITY_GRANTED
   \<and> string_includes (metadata admin_grant) ''admin''
   \<and> getAgentActivity (es_activities granted_once) ''n1'' 200 = [admin_grant]
   \<and> detectAnomalies granted_once ''n1'' 1000 = Inr []"
proof -
  have acts: "getAgentActivity (es_activities granted_once) ''n1'' 200 = [admin_grant]"
    by (simp add: getAgentActivity_def granted_once_def empty_store_def admin_grant_def)
  have ag: "getAgent (es_agents granted_once) ''n1'' = Inr newcomer"
    using newcomer_found by (simp add: granted_once_def empty_store_def)
  have rel: "getRelationships (es_relationships granted_once) ''n1'' = ([], [])"
    by (simp add: getRelationships_def granted_once_def empty_store_def)
  have t: "activityType admin_grant = CAPABILITY_GRANTED" "timestamp admin_grant = 900"
    by (simp_all add: admin_grant_def)
  have "detectAnomalies granted_once ''n1'' 1000 = Inr []"
    by (simp add: detectAnomalies_def ag acts rel Let_def pushIf_def t
          detectAccessPatternAnomalies_def detectTrustManipulation_def
          detectCapabilityEscalation_def detectCollusionPatterns_def
          detectBehaviorDeviation_def)
  with acts t admin_grant_mentions_admin show ?thesis by simp
qed

theorem detectAnomalies_escalation_witness:
  "\<exists>esc. detectAnomalies granted_twice ''n1'' 1000 = Inr [esc]
      \<and> anomalyType esc = CAPABILITY_ESCALATION \<and> severity esc = HIGH
      \<and> confidence esc = 0.8"
proof -
  have acts: "[admin_grant, read_grant] = getAgentActivity (es_activities granted_twice) ''n1'' 200"
    by (simp add: getAgentActivity_def granted_twice_def empty_store_def admin_grant_def
          read_grant_def)
  have ag: "getAgent (es_agents granted_twice) ''n1'' = Inr newcomer"
    using newcomer_found by (simp add: granted_twice_def empty_store_def)
  have rel: "([], []) = getRelationships (es_relationships granted_twice) ''n1''"
    by (simp add: getRelationships_def granted_twice_def empty_store_def)
  have t: "activityType admin_grant = CAPABILITY_GRANTED" "timestamp admin_grant = 900"
    "activityType read_grant = CAPABILITY_GRANTED" "timestamp read_grant = 800"
    by (simp_all add: admin_grant_def read_grant_def)
  have two: "2 \<le> length (filter (\<lambda>a. activityType a = CAPABILITY_GRANTED)
      [admin_grant, read_grant])"
    by (simp add: t)
  have ex: "\<exists>a \<in> set [admin_grant, read_grant].
           activityType a = CAPABILITY_GRANTED \<and> string_includes (metadata a) ''admin''"
    using admin_grant_mentions_admin t by simp
  have others: "detectAccessPatternAnomalies newcomer [admin_grant, read_grant] 1000 = None"
    "detectTrustManipulation newcomer [admin_grant, read_grant] 1000 = None"
    "detectCollusionPatterns newcomer ([], []) 1000 = None"
    "detectBehaviorDeviation newcomer [admin_grant, read_grant] 1000 = None"
    by (simp_all add: detectAccessPatternAnomalies_def detectTrustManipulation_def
          detectCollusionPatterns_def detectBehaviorDeviation_def t)
  from detectAnomalies_escalation [OF ag acts rel two ex, of 1000]
  obtain esc where e: "anomalyType esc = CAPABILITY_ESCALATION" "severity esc = HIGH"
      "confidence esc = 0.8"
    and only: "detectAccessPatternAnomalies newcomer [admin_grant, read_grant] 1000 = None
        \<and> detectTrustManipulation newcomer [admin_grant, read_grant] 1000 = None
        \<and> detectCollusionPatterns newcomer ([], []) 1000 = None
        \<and> detectBehaviorDeviation newcomer [admin_grant, read_grant] 1000 = None \<longrightarrow>
      detectAnomalies granted_twice ''n1'' 1000 = Inr [esc]"
    by blast
  from only others have "detectAnomalies granted_twice ''n1'' 1000 = Inr [esc]"
    by blast
  with e show ?thesis by blast
qed

end
